theory Spec2Isabelle
  imports Main
begin

section \<open>Schema\<close>

text \<open>
  The tables of the shared schema, one record per row type. Column names carry a
  prefix for their table, since several tables have an \<open>id\<close>, a \<open>name\<close> or a
  \<open>courseId\<close>. Identifiers are the \<open>varchar\<close> uuids of the schema, timestamps are
  milliseconds. The \<open>createdAt\<close> columns are left out: the database fills them and none
  of the operations below reads them. A nullable column is an \<open>option\<close>.
\<close>

type_synonym ident = string
type_synonym timestamp = int

record User =
  usr_id :: ident
  usr_email :: string
  usr_password :: string
  usr_role :: string
  usr_studentId :: "string option"

record Student =
  stu_id :: ident
  stu_studentId :: string
  stu_name :: string
  stu_courseId :: ident
  stu_sectionId :: ident
  stu_age :: "int option"
  stu_email :: "string option"
  stu_birthday :: "string option"
  stu_profilePicture :: "string option"

record Course =
  crs_id :: ident
  crs_name :: string
  crs_description :: "string option"

record Section =
  sec_id :: ident
  sec_courseId :: ident
  sec_name :: string

record Event =
  evt_id :: ident
  evt_name :: string
  evt_description :: "string option"
  evt_eventDate :: string
  evt_eventTime :: string
  evt_qrCode :: "string option"
  evt_qrCodeData :: string
  evt_isActive :: bool

record EventCourseSection =
  ecs_id :: ident
  ecs_eventId :: ident
  ecs_courseId :: ident
  ecs_sectionId :: ident

record Attendance =
  att_id :: ident
  att_eventId :: ident
  att_studentId :: ident
  att_timeIn :: "timestamp option"
  att_timeOut :: "timestamp option"

record SystemSettings =
  set_id :: ident
  set_systemName :: string
  set_qrCodeEnabled :: bool
  set_updatedAt :: timestamp

text \<open>
  The database: every table is the list of its rows, in the order a \<open>select\<close> without
  \<open>order by\<close> returns them. An insert appends; an update rewrites rows in place.
\<close>

record db =
  users :: "User list"
  students :: "Student list"
  courses :: "Course list"
  sections :: "Section list"
  events :: "Event list"
  eventCourseSections :: "EventCourseSection list"
  attendance :: "Attendance list"
  systemSettings :: "SystemSettings list"

text \<open>
  What a handler's \<open>try\<close> block can throw. The schema declares a primary key on
  every \<open>id\<close>, a unique \<open>users.email\<close> and \<open>students.student_id\<close>, and
  \<open>students.age\<close> as a 32-bit \<open>integer\<close>; it declares no other constraint and no
  foreign key. The query builder refuses an update whose patch has no defined key.
  Every column but the optional ones of a table is \<open>notNull\<close>, and a text that is not
  a number is no value of an \<open>integer\<close> column. A property read on \<open>undefined\<close> is a
  \<open>TypeError\<close>; a payload that cannot be parsed is a \<open>ParseError\<close>. The \<open>catch\<close> of
  every handler turns each into status 500 with the exception's message.
\<close>

datatype exn =
    UniqueViolation
  | NumericValueOutOfRange
  | NotNullViolation
  | InvalidTextRepresentation
  | NoValuesToSet
  | TypeError
  | ParseError

section \<open>Storage: attendance\<close>

text \<open>\<open>const [row] = await db.select()...\<close>: the first row, or \<open>undefined\<close>.\<close>

fun first :: "'a list \<Rightarrow> 'a option" where
  "first [] = None"
| "first (x # xs) = Some x"

record InsertAttendance =
  ia_eventId :: ident
  ia_studentId :: ident
  ia_timeIn :: "timestamp option"
  ia_timeOut :: "timestamp option"

text \<open>
  \<open>Partial<InsertAttendance>\<close>: a key that is absent is \<open>None\<close>; a nullable column
  set to \<open>null\<close> is \<open>Some None\<close>.
\<close>

record PatchAttendance =
  pa_eventId :: "ident option"
  pa_studentId :: "ident option"
  pa_timeIn :: "timestamp option option"
  pa_timeOut :: "timestamp option option"

definition getAttendance :: "db \<Rightarrow> ident \<Rightarrow> ident \<Rightarrow> Attendance option" where
  "getAttendance s eventId studentId =
     first (filter (\<lambda>a. att_eventId a = eventId \<and> att_studentId a = studentId) (attendance s))"

text \<open>
  An insert takes the value \<open>gen_random_uuid()\<close> yields for the new row's \<open>id\<close>; the
  primary key rejects an \<open>id\<close> already in the table.
\<close>

definition createAttendance :: "db \<Rightarrow> ident \<Rightarrow> InsertAttendance \<Rightarrow> exn + (Attendance \<times> db)" where
  "createAttendance s newId ins =
     (if newId \<in> set (map att_id (attendance s)) then Inl UniqueViolation
      else
        let row = \<lparr>att_id = newId, att_eventId = ia_eventId ins, att_studentId = ia_studentId ins,
                    att_timeIn = ia_timeIn ins, att_timeOut = ia_timeOut ins\<rparr>
        in Inr (row, s\<lparr>attendance := attendance s @ [row]\<rparr>))"

definition setAttendance :: "PatchAttendance \<Rightarrow> Attendance \<Rightarrow> Attendance" where
  "setAttendance p a =
     a\<lparr>att_eventId := (case pa_eventId p of None \<Rightarrow> att_eventId a | Some v \<Rightarrow> v),
       att_studentId := (case pa_studentId p of None \<Rightarrow> att_studentId a | Some v \<Rightarrow> v),
       att_timeIn := (case pa_timeIn p of None \<Rightarrow> att_timeIn a | Some v \<Rightarrow> v),
       att_timeOut := (case pa_timeOut p of None \<Rightarrow> att_timeOut a | Some v \<Rightarrow> v)\<rparr>"

definition updateAttendance ::
  "db \<Rightarrow> ident \<Rightarrow> PatchAttendance \<Rightarrow> exn + (Attendance option \<times> db)" where
  "updateAttendance s rid p =
     (if pa_eventId p = None \<and> pa_studentId p = None \<and> pa_timeIn p = None \<and> pa_timeOut p = None
      then Inl NoValuesToSet
      else
        let rows = map (\<lambda>a. if att_id a = rid then setAttendance p a else a) (attendance s)
        in Inr (first (filter (\<lambda>a. att_id a = rid) rows), s\<lparr>attendance := rows\<rparr>))"

section \<open>Storage: users\<close>

record InsertUser =
  iu_email :: string
  iu_password :: string
  iu_role :: string
  iu_studentId :: "string option"

definition getUser :: "db \<Rightarrow> ident \<Rightarrow> User option" where
  "getUser s uid = first (filter (\<lambda>u. usr_id u = uid) (users s))"

definition getUserByEmail :: "db \<Rightarrow> string \<Rightarrow> User option" where
  "getUserByEmail s email = first (filter (\<lambda>u. usr_email u = email) (users s))"

definition createUser :: "db \<Rightarrow> ident \<Rightarrow> InsertUser \<Rightarrow> exn + (User \<times> db)" where
  "createUser s newId ins =
     (if newId \<in> set (map usr_id (users s)) \<or> iu_email ins \<in> set (map usr_email (users s))
      then Inl UniqueViolation
      else
        let row = \<lparr>usr_id = newId, usr_email = iu_email ins, usr_password = iu_password ins,
                    usr_role = iu_role ins, usr_studentId = iu_studentId ins\<rparr>
        in Inr (row, s\<lparr>users := users s @ [row]\<rparr>))"

section \<open>Storage: students\<close>

text \<open>
  \<open>leftJoin\<close>: every left row with each right row the condition matches, or once with
  \<open>null\<close> when none does.
\<close>

definition leftJoin :: "'a list \<Rightarrow> 'b list \<Rightarrow> ('a \<Rightarrow> 'b \<Rightarrow> bool) \<Rightarrow> ('a \<times> 'b option) list" where
  "leftJoin ls rs on =
     concat (map (\<lambda>l. case filter (on l) rs of
                         [] \<Rightarrow> [(l, None)]
                       | m # ms \<Rightarrow> map (\<lambda>r. (l, Some r)) (m # ms)) ls)"

text \<open>The shape \<open>{...row.students, course: row.courses, section: row.sections}\<close>.\<close>

record StudentWithEnrollment =
  swe_student :: Student
  swe_course :: "Course option"
  swe_section :: "Section option"

definition studentsJoined :: "db \<Rightarrow> ((Student \<times> Course option) \<times> Section option) list" where
  "studentsJoined s =
     leftJoin (leftJoin (students s) (courses s) (\<lambda>st c. stu_courseId st = crs_id c))
       (sections s) (\<lambda>(st, c) sec. stu_sectionId st = sec_id sec)"

definition withEnrollment :: "(Student \<times> Course option) \<times> Section option \<Rightarrow> StudentWithEnrollment" where
  "withEnrollment r =
     (case r of ((st, c), sec) \<Rightarrow> \<lparr>swe_student = st, swe_course = c, swe_section = sec\<rparr>)"

definition getStudentByStudentId :: "db \<Rightarrow> string \<Rightarrow> StudentWithEnrollment option" where
  "getStudentByStudentId s studentId =
     (case first (filter (\<lambda>((st, c), sec). stu_studentId st = studentId) (studentsJoined s)) of
        None \<Rightarrow> None
      | Some r \<Rightarrow> Some (withEnrollment r))"



record PatchStudent =
  ps_studentId :: "string option"
  ps_name :: "string option"
  ps_courseId :: "ident option"
  ps_sectionId :: "ident option"
  ps_age :: "int option option"
  ps_email :: "string option option"
  ps_birthday :: "string option option"
  ps_profilePicture :: "string option option"

text \<open>The range of the \<open>integer\<close> column type.\<close>

definition int32 :: "int \<Rightarrow> bool" where
  "int32 n = (- 2147483648 \<le> n \<and> n \<le> 2147483647)"


definition setStudent :: "PatchStudent \<Rightarrow> Student \<Rightarrow> Student" where
  "setStudent p st =
     st\<lparr>stu_studentId := (case ps_studentId p of None \<Rightarrow> stu_studentId st | Some v \<Rightarrow> v),
        stu_name := (case ps_name p of None \<Rightarrow> stu_name st | Some v \<Rightarrow> v),
        stu_courseId := (case ps_courseId p of None \<Rightarrow> stu_courseId st | Some v \<Rightarrow> v),
        stu_sectionId := (case ps_sectionId p of None \<Rightarrow> stu_sectionId st | Some v \<Rightarrow> v),
        stu_age := (case ps_age p of None \<Rightarrow> stu_age st | Some v \<Rightarrow> v),
        stu_email := (case ps_email p of None \<Rightarrow> stu_email st | Some v \<Rightarrow> v),
        stu_birthday := (case ps_birthday p of None \<Rightarrow> stu_birthday st | Some v \<Rightarrow> v),
        stu_profilePicture :=
          (case ps_profilePicture p of None \<Rightarrow> stu_profilePicture st | Some v \<Rightarrow> v)\<rparr>"

definition emptyPatchStudent :: "PatchStudent \<Rightarrow> bool" where
  "emptyPatchStudent p =
     (ps_studentId p = None \<and> ps_name p = None \<and> ps_courseId p = None \<and> ps_sectionId p = None
      \<and> ps_age p = None \<and> ps_email p = None \<and> ps_birthday p = None
      \<and> ps_profilePicture p = None)"

text \<open>
  An update that assigns \<open>student_id\<close> fails when the column would no longer be
  unique.
\<close>

definition updateStudent :: "db \<Rightarrow> ident \<Rightarrow> PatchStudent \<Rightarrow> exn + (Student option \<times> db)" where
  "updateStudent s rid p =
     (if emptyPatchStudent p then Inl NoValuesToSet
      else if (case ps_age p of Some (Some n) \<Rightarrow> \<not> int32 n | _ \<Rightarrow> False)
      then Inl NumericValueOutOfRange
      else
        let rows = map (\<lambda>st. if stu_id st = rid then setStudent p st else st) (students s)
        in if ps_studentId p \<noteq> None \<and> \<not> distinct (map stu_studentId rows)
           then Inl UniqueViolation
           else Inr (first (filter (\<lambda>st. stu_id st = rid) rows), s\<lparr>students := rows\<rparr>))"


section \<open>Storage: courses and sections\<close>










record SectionWithCourse =
  swc_section :: Section
  swc_course :: "Course option"






section \<open>Storage: events and their associations\<close>


record EventCourseSectionJoined =
  ecj_row :: EventCourseSection
  ecj_course :: "Course option"
  ecj_section :: "Section option"


definition getEventCourseSections :: "db \<Rightarrow> ident \<Rightarrow> EventCourseSectionJoined list" where
  "getEventCourseSections s eventId =
     map (\<lambda>((r, c), sec). \<lparr>ecj_row = r, ecj_course = c, ecj_section = sec\<rparr>)
       (filter (\<lambda>((r, c), sec). ecs_eventId r = eventId)
          (leftJoin
             (leftJoin (eventCourseSections s) (courses s) (\<lambda>r c. ecs_courseId r = crs_id c))
             (sections s) (\<lambda>(r, c) sec. ecs_sectionId r = sec_id sec)))"



record PatchEvent =
  pe_name :: "string option"
  pe_description :: "string option option"
  pe_eventDate :: "string option"
  pe_eventTime :: "string option"
  pe_isActive :: "bool option"
  pe_qrCode :: "string option option"
  pe_qrCodeData :: "string option"

record EventWithSections =
  ews_event :: Event
  ews_eventCourseSections :: "EventCourseSectionJoined list"

definition getAllEvents :: "db \<Rightarrow> EventWithSections list" where
  "getAllEvents s =
     map (\<lambda>e. \<lparr>ews_event = e, ews_eventCourseSections = getEventCourseSections s (evt_id e)\<rparr>)
       (events s)"


definition setEvent :: "PatchEvent \<Rightarrow> Event \<Rightarrow> Event" where
  "setEvent p e =
     e\<lparr>evt_name := (case pe_name p of None \<Rightarrow> evt_name e | Some v \<Rightarrow> v),
       evt_description := (case pe_description p of None \<Rightarrow> evt_description e | Some v \<Rightarrow> v),
       evt_eventDate := (case pe_eventDate p of None \<Rightarrow> evt_eventDate e | Some v \<Rightarrow> v),
       evt_eventTime := (case pe_eventTime p of None \<Rightarrow> evt_eventTime e | Some v \<Rightarrow> v),
       evt_isActive := (case pe_isActive p of None \<Rightarrow> evt_isActive e | Some v \<Rightarrow> v),
       evt_qrCode := (case pe_qrCode p of None \<Rightarrow> evt_qrCode e | Some v \<Rightarrow> v),
       evt_qrCodeData := (case pe_qrCodeData p of None \<Rightarrow> evt_qrCodeData e | Some v \<Rightarrow> v)\<rparr>"

definition emptyPatchEvent :: "PatchEvent \<Rightarrow> bool" where
  "emptyPatchEvent p =
     (pe_name p = None \<and> pe_description p = None \<and> pe_eventDate p = None \<and> pe_eventTime p = None
      \<and> pe_isActive p = None \<and> pe_qrCode p = None \<and> pe_qrCodeData p = None)"

definition updateEvent :: "db \<Rightarrow> ident \<Rightarrow> PatchEvent \<Rightarrow> exn + (Event option \<times> db)" where
  "updateEvent s rid p =
     (if emptyPatchEvent p then Inl NoValuesToSet
      else
        let rows = map (\<lambda>e. if evt_id e = rid then setEvent p e else e) (events s)
        in Inr (first (filter (\<lambda>e. evt_id e = rid) rows), s\<lparr>events := rows\<rparr>))"


section \<open>Storage: system settings\<close>

text \<open>\<open>Partial<InsertSystemSettings>\<close>; both columns have a default.\<close>

record PatchSystemSettings =
  pss_systemName :: "string option"
  pss_qrCodeEnabled :: "bool option"

definition getSystemSettings :: "db \<Rightarrow> SystemSettings option" where
  "getSystemSettings s = first (take 1 (systemSettings s))"

definition setSystemSettings :: "PatchSystemSettings \<Rightarrow> timestamp \<Rightarrow> SystemSettings \<Rightarrow> SystemSettings" where
  "setSystemSettings p now r =
     r\<lparr>set_systemName := (case pss_systemName p of None \<Rightarrow> set_systemName r | Some v \<Rightarrow> v),
       set_qrCodeEnabled := (case pss_qrCodeEnabled p of None \<Rightarrow> set_qrCodeEnabled r | Some v \<Rightarrow> v),
       set_updatedAt := now\<rparr>"

text \<open>
  \<open>now\<close> is the clock: the \<open>new Date()\<close> of the update branch and the column default
  of the insert branch. \<open>newId\<close> is the identifier a new row receives.
\<close>

definition updateSystemSettings ::
  "db \<Rightarrow> timestamp \<Rightarrow> ident \<Rightarrow> PatchSystemSettings \<Rightarrow> exn + (SystemSettings option \<times> db)" where
  "updateSystemSettings s now newId insertSettings =
     (case getSystemSettings s of
        Some existing \<Rightarrow>
          let rows = map (\<lambda>r. if set_id r = set_id existing
                               then setSystemSettings insertSettings now r else r)
                       (systemSettings s)
          in Inr (first (filter (\<lambda>r. set_id r = set_id existing) rows),
                  s\<lparr>systemSettings := rows\<rparr>)
      | None \<Rightarrow>
          if newId \<in> set (map set_id (systemSettings s)) then Inl UniqueViolation
          else
            let row = \<lparr>set_id = newId,
                        set_systemName = (case pss_systemName insertSettings of
                                            None \<Rightarrow> ''Attendance System'' | Some v \<Rightarrow> v),
                        set_qrCodeEnabled = (case pss_qrCodeEnabled insertSettings of
                                               None \<Rightarrow> True | Some v \<Rightarrow> v),
                        set_updatedAt = now\<rparr>
            in Inr (Some row, s\<lparr>systemSettings := systemSettings s @ [row]\<rparr>))"

section \<open>Responses\<close>

text \<open>
  A response is the status code and the JSON body. \<open>Message m\<close> is \<open>{message: m}\<close>,
  \<open>InvalidInput\<close> the validator's \<open>{message: "Invalid input", errors}\<close>, \<open>Thrown e\<close>
  the \<open>{message: error.message}\<close> of a caught exception. An update that matched no
  row answers with \<open>undefined\<close>, the \<open>None\<close> of the row bodies.
\<close>

datatype body =
    Message string
  | InvalidInput
  | Thrown exn
  | LoginBody string ident string string "string option"
  | CheckinBody string "Attendance option"
  | StudentBody "Student option"
  | StudentsBody "StudentWithEnrollment list"
  | CourseBody "Course option"
  | CoursesBody "Course list"
  | SectionBody "Section option"
  | SectionsBody "SectionWithCourse list"
  | EventBody "Event option"
  | EventsBody "EventWithSections list"
  | StudentEventsBody "(EventWithSections \<times> Attendance option) list"
  | SettingsBody "SystemSettings option"
  | DefaultSettingsBody string bool

type_synonym response = "nat \<times> body"

section \<open>Collaborators outside the repository\<close>

text \<open>
  What \<open>JSON.parse(text).eventId\<close> gives: the evaluation throws (the text is not JSON,
  or it is the JSON \<open>null\<close>), or the value has no \<open>eventId\<close> (it is \<open>undefined\<close> or
  \<open>null\<close>), or it has one, which the database reads as a text.
\<close>

datatype parsed_payload = Throws | NoEventId | EventId ident

text \<open>
  An uploaded part of a multipart request: the form field it came in, the mime type
  the client declared, and its bytes. What the upload middleware refuses, by the limits
  and the file filter it is configured with.
\<close>

record FilePart =
  fp_fieldname :: string
  fp_mimetype :: string
  fp_buffer :: string

datatype upload_error =
    LimitFileSize
  | LimitFileCount
  | LimitUnexpectedFile
  | InvalidFileType

text \<open>
  The libraries the handlers call are parameters of the model: the validator's email
  test, the credential hashing service, the token service, the QR payload codec and the
  base64 encoder of a buffer. \<open>bcrypt_hash\<close> takes the salt it draws as its second
  argument. \<open>jwt_verify\<close> gives the \<open>userId\<close> claim of a token it accepts at the given
  time. \<open>JSON_stringify\<close> is applied to the object \<open>{eventId, timestamp}\<close>.

  \<open>errorHandling\<close> is the response to an error that a route's middleware passes on.
  The router hands such an error to the error handlers registered after the route;
  \<open>registerRoutes\<close> registers its own (\<open>multerErrorResponse\<close> below) before the
  routes, and the handlers after them belong to the server's entry file, which is not
  among the sources. Whichever answers, the route's handler does not run.
\<close>

record env =
  isEmail :: "string \<Rightarrow> bool"
  bcrypt_hash :: "string \<Rightarrow> string \<Rightarrow> string"
  bcrypt_compare :: "string \<Rightarrow> string \<Rightarrow> bool"
  jwt_sign :: "ident \<Rightarrow> timestamp \<Rightarrow> string"
  jwt_verify :: "string \<Rightarrow> timestamp \<Rightarrow> ident option"
  JSON_stringify :: "ident \<Rightarrow> timestamp \<Rightarrow> string"
  JSON_parse_eventId :: "string \<Rightarrow> parsed_payload"
  QRCode_toDataURL :: "string \<Rightarrow> string"
  Buffer_toBase64 :: "string \<Rightarrow> string"
  errorHandling :: "upload_error \<Rightarrow> response"

text \<open>A string in a condition: \<open>undefined\<close> and the empty string are falsy.\<close>

fun truthy :: "string option \<Rightarrow> string option" where
  "truthy None = None"
| "truthy (Some v) = (if v = [] then None else Some v)"

section \<open>The upload middleware\<close>

text \<open>
  \<open>upload.single("profilePicture")\<close> with the configuration of the sources: files are
  kept in memory, at most one file of at most 2 MB is taken, and the file filter lets
  four image types through. The parts are read in order and the first refusal ends the
  request: a file in another field, a type the filter rejects, a file over the size
  limit, a second file. With no file part, \<open>req.file\<close> is \<open>undefined\<close>.
\<close>

definition allowedMimes :: "string list" where
  "allowedMimes = [''image/jpeg'', ''image/png'', ''image/jpg'', ''image/webp'']"

definition fileSizeLimit :: nat where
  "fileSizeLimit = 2 * 1024 * 1024"

definition upload_single :: "FilePart list \<Rightarrow> upload_error + FilePart option" where
  "upload_single files =
     (case files of
        [] \<Rightarrow> Inr None
      | file # others \<Rightarrow>
          if fp_fieldname file \<noteq> ''profilePicture'' then Inl LimitUnexpectedFile
          else if fp_mimetype file \<notin> set allowedMimes then Inl InvalidFileType
          else if fileSizeLimit < length (fp_buffer file) then Inl LimitFileSize
          else if others \<noteq> [] then Inl LimitFileCount
          else Inr (Some file))"

text \<open>The error handler that \<open>registerRoutes\<close> installs, on the errors of the upload.\<close>

definition multerErrorResponse :: "upload_error \<Rightarrow> response" where
  "multerErrorResponse e =
     (case e of
        LimitFileSize \<Rightarrow> (400, Message ''File too large. Maximum size is 2MB.'')
      | LimitFileCount \<Rightarrow> (400, Message ''Too many files. Only one file allowed.'')
      | LimitUnexpectedFile \<Rightarrow> (400, Message ''Unexpected field'')
      | InvalidFileType \<Rightarrow>
          (400, Message ''Invalid file type. Only JPEG, PNG, and WebP images are allowed.''))"

section \<open>Identity and access\<close>

text \<open>\<open>text.replace(pat, "")\<close>: the first occurrence of the pattern is removed.\<close>

fun startsWith :: "string \<Rightarrow> string \<Rightarrow> bool" where
  "startsWith [] cs = True"
| "startsWith (p # ps) [] = False"
| "startsWith (p # ps) (c # cs) = (p = c \<and> startsWith ps cs)"

fun removeFirst :: "string \<Rightarrow> string \<Rightarrow> string" where
  "removeFirst pat [] = []"
| "removeFirst pat (c # cs) =
     (if startsWith pat (c # cs) then drop (length pat) (c # cs) else c # removeFirst pat cs)"

definition authMiddleware :: "env \<Rightarrow> timestamp \<Rightarrow> db \<Rightarrow> string option \<Rightarrow> response + User" where
  "authMiddleware ext now s authorization =
     (case truthy authorization of
        None \<Rightarrow> Inl (401, Message ''No authorization header'')
      | Some authHeader \<Rightarrow>
          (case jwt_verify ext (removeFirst ''Bearer '' authHeader) now of
             None \<Rightarrow> Inl (401, Message ''Invalid token'')
           | Some userId \<Rightarrow>
               (case getUser s userId of
                  None \<Rightarrow> Inl (401, Message ''User not found'')
                | Some user \<Rightarrow> Inr user)))"

record LoginRequest =
  lr_email :: "string option"
  lr_password :: "string option"

definition loginSchema :: "env \<Rightarrow> LoginRequest \<Rightarrow> (string \<times> string) option" where
  "loginSchema ext b =
     (case (lr_email b, lr_password b) of
        (Some email, Some password) \<Rightarrow>
          if isEmail ext email \<and> 1 \<le> length password then Some (email, password) else None
      | _ \<Rightarrow> None)"

definition login :: "env \<Rightarrow> timestamp \<Rightarrow> LoginRequest \<Rightarrow> db \<Rightarrow> response" where
  "login ext now b s =
     (case loginSchema ext b of
        None \<Rightarrow> (400, InvalidInput)
      | Some (email, password) \<Rightarrow>
          (case getUserByEmail s email of
             None \<Rightarrow> (401, Message ''Invalid credentials'')
           | Some user \<Rightarrow>
               if \<not> bcrypt_compare ext password (usr_password user)
               then (401, Message ''Invalid credentials'')
               else (200, LoginBody (jwt_sign ext (usr_id user) now) (usr_id user)
                            (usr_email user) (usr_role user) (usr_studentId user))))"

text \<open>The text fields of the registration form.\<close>

record RegisterRequest =
  rr_studentId :: "string option"
  rr_email :: "string option"
  rr_password :: "string option"
  rr_age :: "string option"
  rr_birthday :: "string option"

record Registration =
  reg_studentId :: string
  reg_email :: string
  reg_password :: string
  reg_age :: string
  reg_birthday :: string

definition isDigit :: "char \<Rightarrow> bool" where
  "isDigit c = (c \<in> set ''0123456789'')"

definition registerSchema :: "env \<Rightarrow> RegisterRequest \<Rightarrow> Registration option" where
  "registerSchema ext b =
     (case (rr_studentId b, rr_email b, rr_password b, rr_age b, rr_birthday b) of
        (Some studentId, Some email, Some password, Some age, Some birthday) \<Rightarrow>
          if 1 \<le> length studentId \<and> isEmail ext email \<and> 6 \<le> length password
             \<and> age \<noteq> [] \<and> list_all isDigit age
          then Some \<lparr>reg_studentId = studentId, reg_email = email, reg_password = password,
                      reg_age = age, reg_birthday = birthday\<rparr>
          else None
      | _ \<Rightarrow> None)"

text \<open>
  \<open>parseInt\<close> with no radix: leading white space is skipped, a sign is read, a
  \<open>0x\<close> prefix selects base sixteen, and the longest run of digits gives the number;
  with no digit the result is \<open>NaN\<close>, here \<open>None\<close>. The number is the exact one: the
  rounding of numbers beyond 2^53 is not modelled, all of them lie outside the
  \<open>integer\<close> column. White space is the ASCII white space.
\<close>

definition isSpace :: "char \<Rightarrow> bool" where
  "isSpace c = (c \<in> set [CHR 0x09, CHR 0x0A, CHR 0x0B, CHR 0x0C, CHR 0x0D, CHR 0x20])"

definition isHexDigit :: "char \<Rightarrow> bool" where
  "isHexDigit c = (c \<in> set ''0123456789abcdefABCDEF'')"

definition digitOf :: "char \<Rightarrow> nat" where
  "digitOf c =
     (if isDigit c then of_char c - 48
      else if c \<in> set ''abcdef'' then of_char c - 87
      else of_char c - 55)"

definition digitsValue :: "nat \<Rightarrow> string \<Rightarrow> int" where
  "digitsValue radix ds = foldl (\<lambda>n c. int radix * n + int (digitOf c)) 0 ds"

definition parseInt :: "string \<Rightarrow> int option" where
  "parseInt text =
     (let t = dropWhile isSpace text;
          negative = startsWith ''-'' t;
          t1 = (if startsWith ''-'' t \<or> startsWith ''+'' t then drop 1 t else t);
          hex = (startsWith ''0x'' t1 \<or> startsWith ''0X'' t1);
          ds = (if hex then takeWhile isHexDigit (drop 2 t1) else takeWhile isDigit t1);
          v = digitsValue (if hex then 16 else 10) ds
      in if ds = [] then None else Some (if negative then - v else v))"

text \<open>
  The handler, with \<open>req.file\<close> as the upload middleware left it. A \<open>NaN\<close> age is
  not a value of the \<open>integer\<close> column: the update throws.
\<close>

definition register ::
  "env \<Rightarrow> string \<Rightarrow> ident \<Rightarrow> FilePart option \<Rightarrow> RegisterRequest \<Rightarrow> db \<Rightarrow> response \<times> db" where
  "register ext salt newId profilePicture b s =
     (case registerSchema ext b of
        None \<Rightarrow> ((400, InvalidInput), s)
      | Some v \<Rightarrow>
          (case getStudentByStudentId s (reg_studentId v) of
             None \<Rightarrow> ((404, Message ''Student ID not found in system''), s)
           | Some student \<Rightarrow>
               (case getUserByEmail s (reg_email v) of
                  Some existingUser \<Rightarrow> ((400, Message ''Email already registered''), s)
                | None \<Rightarrow>
                    let hashedPassword = bcrypt_hash ext (reg_password v) salt;
                        profilePictureUrl =
                          (case profilePicture of
                             Some file \<Rightarrow>
                               ''data:'' @ fp_mimetype file @ '';base64,''
                                 @ Buffer_toBase64 ext (fp_buffer file)
                           | None \<Rightarrow> [])
                    in (case (case parseInt (reg_age v) of
                                None \<Rightarrow> Inl InvalidTextRepresentation
                              | Some age \<Rightarrow>
                                  updateStudent s (stu_id (swe_student student))
                                    \<lparr>ps_studentId = None, ps_name = None, ps_courseId = None,
                                     ps_sectionId = None,
                                     ps_age = Some (Some age),
                                     ps_email = Some (Some (reg_email v)),
                                     ps_birthday = Some (Some (reg_birthday v)),
                                     ps_profilePicture = Some (Some profilePictureUrl)\<rparr>) of
                          Inl e \<Rightarrow> ((500, Thrown e), s)
                        | Inr (updated, s1) \<Rightarrow>
                            (case createUser s1 newId
                                    \<lparr>iu_email = reg_email v, iu_password = hashedPassword,
                                     iu_role = ''student'',
                                     iu_studentId = Some (reg_studentId v)\<rparr> of
                               Inl e \<Rightarrow> ((500, Thrown e), s1)
                             | Inr (user, s2) \<Rightarrow>
                                 ((200, Message ''Registration successful''), s2))))))"

text \<open>
  The route: the upload middleware, then the handler. A refused upload goes to the
  error handling and the handler does not run.
\<close>

definition post_auth_register ::
  "env \<Rightarrow> string \<Rightarrow> ident \<Rightarrow> FilePart list \<Rightarrow> RegisterRequest \<Rightarrow> db \<Rightarrow> response \<times> db" where
  "post_auth_register ext salt newId files b s =
     (case upload_single files of
        Inl e \<Rightarrow> (errorHandling ext e, s)
      | Inr profilePicture \<Rightarrow> register ext salt newId profilePicture b s)"

section \<open>The attendance ledger\<close>

text \<open>
  The second half of the check-in handler, from the lookup of the attendance row on:
  \<open>now\<close> is the value of \<open>new Date()\<close>, \<open>newId\<close> the identifier the database gives a
  new row. The handler awaits the lookup before it writes, so the two halves are
  separate steps: \<open>checkin_write\<close> acts on what the lookup returned.
\<close>

definition checkin_write ::
  "timestamp \<Rightarrow> ident \<Rightarrow> ident \<Rightarrow> ident \<Rightarrow> Attendance option \<Rightarrow> db \<Rightarrow> response \<times> db" where
  "checkin_write now newId eventId studentId found s =
     (case found of
        None \<Rightarrow>
          (case createAttendance s newId
                  \<lparr>ia_eventId = eventId, ia_studentId = studentId,
                   ia_timeIn = Some now, ia_timeOut = None\<rparr> of
             Inl e \<Rightarrow> ((500, Thrown e), s)
           | Inr (row, s') \<Rightarrow> ((200, CheckinBody ''in'' (Some row)), s'))
      | Some a \<Rightarrow>
          if att_timeOut a = None then
            (case updateAttendance s (att_id a)
                    \<lparr>pa_eventId = None, pa_studentId = None, pa_timeIn = None,
                     pa_timeOut = Some (Some now)\<rparr> of
               Inl e \<Rightarrow> ((500, Thrown e), s)
             | Inr (updated, s') \<Rightarrow> ((200, CheckinBody ''out'' updated), s'))
          else ((400, Message ''Attendance already complete''), s))"

definition record_attendance ::
  "timestamp \<Rightarrow> ident \<Rightarrow> ident \<Rightarrow> ident \<Rightarrow> db \<Rightarrow> response \<times> db" where
  "record_attendance now newId eventId studentId s =
     checkin_write now newId eventId studentId (getAttendance s eventId studentId) s"

text \<open>
  The first half of the handler: which event and which student the request names.
  A QR payload gives the event, and the student is the caller's own; a manual entry
  gives both. The result is the early response, or the pair of identifiers. A payload
  without \<open>eventId\<close> passes the account test and the student lookup like any other;
  the attendance lookup then finds no row for an \<open>undefined\<close> event and the insert
  fails on the \<open>notNull\<close> column, which leaves the database as it was: that outcome
  is the early response here.
\<close>

record CheckinRequest =
  cr_qrCodeData :: "string option"
  cr_studentId :: "string option"
  cr_eventId :: "string option"

definition checkin_target ::
  "env \<Rightarrow> User \<Rightarrow> CheckinRequest \<Rightarrow> db \<Rightarrow> response + (ident \<times> ident)" where
  "checkin_target ext user b s =
     (case truthy (cr_qrCodeData b) of
        Some qrCodeData \<Rightarrow>
          (case JSON_parse_eventId ext qrCodeData of
             Throws \<Rightarrow> Inl (500, Thrown ParseError)
           | parsed \<Rightarrow>
               (case truthy (usr_studentId user) of
                  None \<Rightarrow> Inl (400, Message ''Not a student account'')
                | Some ownId \<Rightarrow>
                    (case getStudentByStudentId s ownId of
                       None \<Rightarrow> Inl (404, Message ''Student not found'')
                     | Some student \<Rightarrow>
                         (case parsed of
                            EventId eventId \<Rightarrow> Inr (eventId, stu_id (swe_student student))
                          | _ \<Rightarrow> Inl (500, Thrown NotNullViolation)))))
      | None \<Rightarrow>
          (case (truthy (cr_studentId b), truthy (cr_eventId b)) of
             (Some manualStudentId, Some manualEventId) \<Rightarrow>
               (case getStudentByStudentId s manualStudentId of
                  None \<Rightarrow> Inl (404, Message ''Student not found'')
                | Some student \<Rightarrow> Inr (manualEventId, stu_id (swe_student student)))
           | _ \<Rightarrow> Inl (400, Message ''Invalid check-in data'')))"

definition checkin ::
  "env \<Rightarrow> timestamp \<Rightarrow> ident \<Rightarrow> User \<Rightarrow> CheckinRequest \<Rightarrow> db \<Rightarrow> response \<times> db" where
  "checkin ext now newId user b s =
     (case checkin_target ext user b s of
        Inl r \<Rightarrow> (r, s)
      | Inr (eventId, studentId) \<Rightarrow> record_attendance now newId eventId studentId s)"

text \<open>The route: the middleware, then the handler with the user it resolved.\<close>

definition post_attendance_checkin ::
  "env \<Rightarrow> timestamp \<Rightarrow> ident \<Rightarrow> string option \<Rightarrow> CheckinRequest \<Rightarrow> db \<Rightarrow> response \<times> db" where
  "post_attendance_checkin ext now newId authorization b s =
     (case authMiddleware ext now s authorization of
        Inl r \<Rightarrow> (r, s)
      | Inr user \<Rightarrow> checkin ext now newId user b s)"

section \<open>Administration of students, courses and sections\<close>



















section \<open>Administration of events\<close>









definition post_events_regenerate_qr ::
  "env \<Rightarrow> timestamp \<Rightarrow> User \<Rightarrow> ident \<Rightarrow> db \<Rightarrow> response \<times> db" where
  "post_events_regenerate_qr ext now user rid s =
     (if usr_role user \<noteq> ''admin'' then ((403, Message ''Admin access required''), s)
      else
        let qrCodeData = JSON_stringify ext rid now;
            qrCode = QRCode_toDataURL ext qrCodeData
        in (case updateEvent s rid
                   \<lparr>pe_name = None, pe_description = None, pe_eventDate = None,
                    pe_eventTime = None, pe_isActive = None, pe_qrCode = Some (Some qrCode),
                    pe_qrCodeData = Some qrCodeData\<rparr> of
              Inl e \<Rightarrow> ((500, Thrown e), s)
            | Inr (event, s') \<Rightarrow> ((200, EventBody event), s')))"

section \<open>The event scope resolver\<close>

text \<open>
  The student's listing. The caller's student row may be missing; the filter then
  throws at the first association row it tests, and not at all when no event has one.
\<close>

definition matchesEnrollment :: "Student \<Rightarrow> EventCourseSectionJoined \<Rightarrow> bool" where
  "matchesEnrollment st ecs =
     (ecs_courseId (ecj_row ecs) = stu_courseId st \<and> ecs_sectionId (ecj_row ecs) = stu_sectionId st)"

definition get_student_events :: "User \<Rightarrow> db \<Rightarrow> response" where
  "get_student_events user s =
     (if usr_role user \<noteq> ''student'' then (403, Message ''Student access required'')
      else
        let student = (case usr_studentId user of
                         None \<Rightarrow> None
                       | Some ownId \<Rightarrow> getStudentByStudentId s ownId);
            allEvents = getAllEvents s
        in (case student of
              None \<Rightarrow>
                if list_ex (\<lambda>event. ews_eventCourseSections event \<noteq> []) allEvents
                then (500, Thrown TypeError)
                else (200, StudentEventsBody [])
            | Some st \<Rightarrow>
                let studentEvents =
                      filter (\<lambda>event. list_ex (matchesEnrollment (swe_student st))
                                         (ews_eventCourseSections event)) allEvents
                in (200, StudentEventsBody
                           (map (\<lambda>event. (event, getAttendance s (evt_id (ews_event event))
                                                     (stu_id (swe_student st))))
                              studentEvents))))"

section \<open>The student's own profile\<close>



section \<open>Settings routes\<close>



section \<open>The administration routes\<close>




section \<open>The interleaving of two check-ins\<close>

text \<open>
  A handler yields at each \<open>await\<close>, and only there. Two check-in requests that are
  in flight together can therefore both finish their lookup before either writes:
  the schedule lookup, lookup, write, write.
\<close>

definition checkin_lookup_lookup_write_write ::
  "timestamp \<Rightarrow> ident \<Rightarrow> timestamp \<Rightarrow> ident \<Rightarrow> ident \<Rightarrow> ident \<Rightarrow> db
     \<Rightarrow> response \<times> response \<times> db" where
  "checkin_lookup_lookup_write_write now1 newId1 now2 newId2 eventId studentId s =
     (let found1 = getAttendance s eventId studentId;
          found2 = getAttendance s eventId studentId;
          (r1, s1) = checkin_write now1 newId1 eventId studentId found1 s;
          (r2, s2) = checkin_write now2 newId2 eventId studentId found2 s1
      in (r1, r2, s2))"

text \<open>The attendance rows of one (event, student) pair.\<close>

definition attendanceOf :: "db \<Rightarrow> ident \<Rightarrow> ident \<Rightarrow> Attendance list" where
  "attendanceOf s eventId studentId =
     filter (\<lambda>a. att_eventId a = eventId \<and> att_studentId a = studentId) (attendance s)"

section \<open>An example installation\<close>

text \<open>
  Stand-ins for the libraries, used to run the model on examples: an email has an
  \<open>@\<close>, a digest is the salt, a colon and the password, a token is \<open>jwt.\<close> and the
  user id, the payload codec writes and reads the one object shape the handlers
  produce, and a refused upload is answered by the handler of the sources.
\<close>

fun decimal :: "nat \<Rightarrow> string" where
  "decimal n =
     (if n < 10 then [''0123456789'' ! n]
      else decimal (n div 10) @ [''0123456789'' ! (n mod 10)])"

definition sample_env :: env where
  "sample_env =
     \<lparr>isEmail = (\<lambda>e. CHR ''@'' \<in> set e),
      bcrypt_hash = (\<lambda>password salt. salt @ '':'' @ password),
      bcrypt_compare = (\<lambda>password digest.
         dropWhile (\<lambda>c. c \<noteq> CHR '':'') digest = CHR '':'' # password),
      jwt_sign = (\<lambda>userId now. ''jwt.'' @ userId),
      jwt_verify = (\<lambda>token now. if startsWith ''jwt.'' token then Some (drop 4 token) else None),
      JSON_stringify = (\<lambda>eventId t.
         ''{\"eventId\":\"'' @ eventId @ ''\",\"timestamp\":'' @ decimal (nat t) @ ''}''),
      JSON_parse_eventId = (\<lambda>text.
         if startsWith ''{\"eventId\":\"'' text
         then EventId (takeWhile (\<lambda>c. c \<noteq> CHR 0x22) (drop 12 text))
         else if text = ''{}'' then NoEventId else Throws),
      QRCode_toDataURL = (\<lambda>text. ''data:image/png;base64,'' @ text),
      Buffer_toBase64 = (\<lambda>bytes. ''b64:'' @ bytes),
      errorHandling = multerErrorResponse\<rparr>"

text \<open>
  One course with sections A and B. Ann is in section A and has an account; Bob is in
  section B and has none. The event \<open>e1\<close> is inactive and open to section A only.
\<close>

definition admin_user :: User where
  "admin_user =
     \<lparr>usr_id = ''u1'', usr_email = ''admin@attendance.com'', usr_password = ''s1:admin123'',
      usr_role = ''admin'', usr_studentId = None\<rparr>"

definition ann_user :: User where
  "ann_user =
     \<lparr>usr_id = ''u2'', usr_email = ''ann@school.edu'', usr_password = ''s2:annpass'',
      usr_role = ''student'', usr_studentId = Some ''2024-001''\<rparr>"

definition ann :: Student where
  "ann =
     \<lparr>stu_id = ''st1'', stu_studentId = ''2024-001'', stu_name = ''Ann'', stu_courseId = ''c1'',
      stu_sectionId = ''secA'', stu_age = Some 20, stu_email = Some ''ann@school.edu'',
      stu_birthday = Some ''2004-05-06'', stu_profilePicture = Some []\<rparr>"

definition bob :: Student where
  "bob =
     \<lparr>stu_id = ''st2'', stu_studentId = ''2024-002'', stu_name = ''Bob'', stu_courseId = ''c1'',
      stu_sectionId = ''secB'', stu_age = None, stu_email = None,
      stu_birthday = None, stu_profilePicture = None\<rparr>"

definition course1 :: Course where
  "course1 = \<lparr>crs_id = ''c1'', crs_name = ''Computer Science'', crs_description = None\<rparr>"

definition sectionA :: Section where
  "sectionA = \<lparr>sec_id = ''secA'', sec_courseId = ''c1'', sec_name = ''Section A''\<rparr>"

definition sectionB :: Section where
  "sectionB = \<lparr>sec_id = ''secB'', sec_courseId = ''c1'', sec_name = ''Section B''\<rparr>"

definition event1 :: Event where
  "event1 =
     \<lparr>evt_id = ''e1'', evt_name = ''Orientation'', evt_description = None,
      evt_eventDate = ''2025-01-10'', evt_eventTime = ''09:00'', evt_qrCode = None,
      evt_qrCodeData = ''{\"eventId\":\"e1\",\"timestamp\":1}'', evt_isActive = False\<rparr>"

definition demo_db :: db where
  "demo_db =
     \<lparr>users = [admin_user, ann_user],
      students = [ann, bob],
      courses = [course1],
      sections = [sectionA, sectionB],
      events = [event1],
      eventCourseSections =
        [\<lparr>ecs_id = ''k1'', ecs_eventId = ''e1'', ecs_courseId = ''c1'', ecs_sectionId = ''secA''\<rparr>],
      attendance = [],
      systemSettings = []\<rparr>"

section \<open>Lists and rows\<close>

lemma first_filter_None: "first (filter P xs) = None \<longleftrightarrow> (\<forall>x\<in>set xs. \<not> P x)"
  by (induction xs) auto

lemma first_filter_Some: "first (filter P xs) = Some x \<Longrightarrow> x \<in> set xs \<and> P x"
  by (induction xs) (auto split: if_splits)

lemma key_inj:
  "distinct (map f xs) \<Longrightarrow> x \<in> set xs \<Longrightarrow> a \<in> set xs \<Longrightarrow> f x = f a \<Longrightarrow> x = a"
  by (auto simp: distinct_map inj_on_def)

lemma map_update_by_key:
  assumes "distinct (map f xs)" "a \<in> set xs"
  shows "map (\<lambda>r. if f r = f a then g r else r) xs = map (\<lambda>r. if r = a then g a else r) xs"
proof (rule map_cong [OF refl])
  fix x assume "x \<in> set xs"
  then show "(if f x = f a then g x else x) = (if x = a then g a else x)"
    using key_inj [OF assms(1) _ assms(2), of x] by auto
qed

lemma first_filter_updated:
  assumes "distinct (map f xs)" "a \<in> set xs" "f (g a) = f a"
  shows "first (filter (\<lambda>r. f r = f a) (map (\<lambda>r. if r = a then g a else r) xs)) = Some (g a)"
  using assms
proof (induction xs)
  case Nil then show ?case by simp
next
  case (Cons x xs)
  show ?case
  proof (cases "x = a")
    case True then show ?thesis using Cons.prems by simp
  next
    case False
    then have "f x \<noteq> f a" using Cons.prems by (auto simp: image_iff)
    then show ?thesis using Cons False by auto
  qed
qed

section \<open>The attendance state machine\<close>

lemma checkin_write_absent:
  assumes "newId \<notin> set (map att_id (attendance s))"
  shows "checkin_write now newId e st None s =
        ((200, CheckinBody ''in''
                 (Some \<lparr>att_id = newId, att_eventId = e, att_studentId = st,
                        att_timeIn = Some now, att_timeOut = None\<rparr>)),
         s\<lparr>attendance := attendance s @
              [\<lparr>att_id = newId, att_eventId = e, att_studentId = st,
                att_timeIn = Some now, att_timeOut = None\<rparr>]\<rparr>)"
  using assms by (simp add: checkin_write_def createAttendance_def Let_def)

lemma record_attendance_absent:
  assumes "getAttendance s e st = None" "newId \<notin> set (map att_id (attendance s))"
  shows "record_attendance now newId e st s =
        ((200, CheckinBody ''in''
                 (Some \<lparr>att_id = newId, att_eventId = e, att_studentId = st,
                        att_timeIn = Some now, att_timeOut = None\<rparr>)),
         s\<lparr>attendance := attendance s @
              [\<lparr>att_id = newId, att_eventId = e, att_studentId = st,
                att_timeIn = Some now, att_timeOut = None\<rparr>]\<rparr>)"
  using assms checkin_write_absent [of newId s now e st] by (simp add: record_attendance_def)

lemma getAttendance_first: "getAttendance s e st = first (attendanceOf s e st)"
  by (simp add: getAttendance_def attendanceOf_def)

lemma attendanceOf_member:
  "attendanceOf s e st = a # rest \<Longrightarrow> a \<in> set (attendance s)"
  by (metis attendanceOf_def filter_is_subset list.set_intros(1) subsetD)

text \<open>
  C1. The check-in of a pair (event, student) is a machine of three states, read off
  the attendance rows of the pair in the table. When the table has no row of the pair,
  and the database's fresh identifier is unused, one row is added with \<open>timeIn\<close> the
  current time and \<open>timeOut\<close> null, and the answer is \<open>in\<close>. When the table has rows of
  the pair and the first has \<open>timeOut\<close> null, in a table that respects its primary key,
  that row alone changes: its \<open>timeOut\<close> becomes the current time, its \<open>timeIn\<close>
  stays, and the answer is \<open>out\<close>. When the first row of the pair has \<open>timeOut\<close> set,
  the answer is status 400, attendance already complete, and the database is
  unchanged. Under the data model's rule of at most one row per pair, the first row of
  the pair is its only row. The handler runs this machine for the pair its request
  resolves to, by QR payload or by manual entry.
\<close>

theorem checkin_state_machine:
  "(attendanceOf s e st = [] \<and> newId \<notin> set (map att_id (attendance s)) \<longrightarrow>
      record_attendance now newId e st s =
        ((200, CheckinBody ''in''
                 (Some \<lparr>att_id = newId, att_eventId = e, att_studentId = st,
                        att_timeIn = Some now, att_timeOut = None\<rparr>)),
         s\<lparr>attendance := attendance s @
              [\<lparr>att_id = newId, att_eventId = e, att_studentId = st,
                att_timeIn = Some now, att_timeOut = None\<rparr>]\<rparr>))
   \<and> (\<forall>a rest. attendanceOf s e st = a # rest \<and> att_timeOut a = None
            \<and> distinct (map att_id (attendance s)) \<longrightarrow>
      record_attendance now newId e st s =
        ((200, CheckinBody ''out'' (Some (a\<lparr>att_timeOut := Some now\<rparr>))),
         s\<lparr>attendance :=
              map (\<lambda>r. if r = a then a\<lparr>att_timeOut := Some now\<rparr> else r) (attendance s)\<rparr>))
   \<and> (\<forall>a rest. attendanceOf s e st = a # rest \<and> att_timeOut a \<noteq> None \<longrightarrow>
      record_attendance now newId e st s = ((400, Message ''Attendance already complete''), s))
   \<and> (\<forall>ext user b. checkin_target ext user b s = Inr (e, st) \<longrightarrow>
      checkin ext now newId user b s = record_attendance now newId e st s)"
proof (intro conjI allI impI)
  assume "attendanceOf s e st = [] \<and> newId \<notin> set (map att_id (attendance s))"
  then show "record_attendance now newId e st s =
        ((200, CheckinBody ''in''
                 (Some \<lparr>att_id = newId, att_eventId = e, att_studentId = st,
                        att_timeIn = Some now, att_timeOut = None\<rparr>)),
         s\<lparr>attendance := attendance s @
              [\<lparr>att_id = newId, att_eventId = e, att_studentId = st,
                att_timeIn = Some now, att_timeOut = None\<rparr>]\<rparr>)"
    by (simp add: record_attendance_absent getAttendance_first)
next
  fix a rest
  assume h: "attendanceOf s e st = a # rest \<and> att_timeOut a = None
            \<and> distinct (map att_id (attendance s))"
  then have found: "getAttendance s e st = Some a"
    by (simp add: getAttendance_first)
  from h have mem: "a \<in> set (attendance s)"
    by (auto dest: attendanceOf_member)
  let ?p = "\<lparr>pa_eventId = None, pa_studentId = None, pa_timeIn = None,
                     pa_timeOut = Some (Some now)\<rparr>"
  have set_eq: "\<And>r. setAttendance ?p r = r\<lparr>att_timeOut := Some now\<rparr>"
    by (simp add: setAttendance_def)
  have rows: "map (\<lambda>r. if att_id r = att_id a then setAttendance ?p r else r) (attendance s)
      = map (\<lambda>r. if r = a then a\<lparr>att_timeOut := Some now\<rparr> else r) (attendance s)"
    using h mem map_update_by_key [of att_id "attendance s" a "setAttendance ?p"]
    by (simp add: set_eq)
  have fst: "first (filter (\<lambda>r. att_id r = att_id a)
               (map (\<lambda>r. if r = a then a\<lparr>att_timeOut := Some now\<rparr> else r) (attendance s)))
      = Some (a\<lparr>att_timeOut := Some now\<rparr>)"
    using h mem first_filter_updated [of att_id "attendance s" a "\<lambda>r. r\<lparr>att_timeOut := Some now\<rparr>"]
    by simp
  show "record_attendance now newId e st s =
        ((200, CheckinBody ''out'' (Some (a\<lparr>att_timeOut := Some now\<rparr>))),
         s\<lparr>attendance :=
              map (\<lambda>r. if r = a then a\<lparr>att_timeOut := Some now\<rparr> else r) (attendance s)\<rparr>)"
    using h found
    by (simp add: record_attendance_def checkin_write_def updateAttendance_def Let_def rows fst)
next
  fix a rest
  assume "attendanceOf s e st = a # rest \<and> att_timeOut a \<noteq> None"
  then show "record_attendance now newId e st s = ((400, Message ''Attendance already complete''), s)"
    by (auto simp add: record_attendance_def checkin_write_def getAttendance_first)
next
  fix ext user b
  assume "checkin_target ext user b s = Inr (e, st)"
  then show "checkin ext now newId user b s = record_attendance now newId e st s"
    by (simp add: checkin_def)
qed

text \<open>
  Bob's open row for \<open>e1\<close> comes first in the table. Ann's three calls for the same
  event create, close and refuse, and Bob's row is the same throughout.
\<close>

theorem checkin_state_machine_witness:
  "record_attendance 100 ''a1'' ''e1'' ''st1''
       (demo_db\<lparr>attendance :=
          [\<lparr>att_id = ''a0'', att_eventId = ''e1'', att_studentId = ''st2'',
            att_timeIn = Some 50, att_timeOut = None\<rparr>]\<rparr>) =
     ((200, CheckinBody ''in''
              (Some \<lparr>att_id = ''a1'', att_eventId = ''e1'', att_studentId = ''st1'',
                     att_timeIn = Some 100, att_timeOut = None\<rparr>)),
      demo_db\<lparr>attendance :=
        [\<lparr>att_id = ''a0'', att_eventId = ''e1'', att_studentId = ''st2'',
          att_timeIn = Some 50, att_timeOut = None\<rparr>,
         \<lparr>att_id = ''a1'', att_eventId = ''e1'', att_studentId = ''st1'',
          att_timeIn = Some 100, att_timeOut = None\<rparr>]\<rparr>)
   \<and> record_attendance 200 ''a2'' ''e1'' ''st1''
       (demo_db\<lparr>attendance :=
          [\<lparr>att_id = ''a0'', att_eventId = ''e1'', att_studentId = ''st2'',
            att_timeIn = Some 50, att_timeOut = None\<rparr>,
           \<lparr>att_id = ''a1'', att_eventId = ''e1'', att_studentId = ''st1'',
            att_timeIn = Some 100, att_timeOut = None\<rparr>]\<rparr>) =
     ((200, CheckinBody ''out''
              (Some \<lparr>att_id = ''a1'', att_eventId = ''e1'', att_studentId = ''st1'',
                     att_timeIn = Some 100, att_timeOut = Some 200\<rparr>)),
      demo_db\<lparr>attendance :=
        [\<lparr>att_id = ''a0'', att_eventId = ''e1'', att_studentId = ''st2'',
          att_timeIn = Some 50, att_timeOut = None\<rparr>,
         \<lparr>att_id = ''a1'', att_eventId = ''e1'', att_studentId = ''st1'',
          att_timeIn = Some 100, att_timeOut = Some 200\<rparr>]\<rparr>)
   \<and> record_attendance 300 ''a3'' ''e1'' ''st1''
       (demo_db\<lparr>attendance :=
          [\<lparr>att_id = ''a0'', att_eventId = ''e1'', att_studentId = ''st2'',
            att_timeIn = Some 50, att_timeOut = None\<rparr>,
           \<lparr>att_id = ''a1'', att_eventId = ''e1'', att_studentId = ''st1'',
            att_timeIn = Some 100, att_timeOut = Some 200\<rparr>]\<rparr>) =
     ((400, Message ''Attendance already complete''),
      demo_db\<lparr>attendance :=
        [\<lparr>att_id = ''a0'', att_eventId = ''e1'', att_studentId = ''st2'',
          att_timeIn = Some 50, att_timeOut = None\<rparr>,
         \<lparr>att_id = ''a1'', att_eventId = ''e1'', att_studentId = ''st1'',
          att_timeIn = Some 100, att_timeOut = Some 200\<rparr>]\<rparr>)"
proof -
  let ?r0 = "\<lparr>att_id = ''a0'', att_eventId = ''e1'', att_studentId = ''st2'',
               att_timeIn = Some (50::int), att_timeOut = None\<rparr>"
  let ?r1 = "\<lparr>att_id = ''a1'', att_eventId = ''e1'', att_studentId = ''st1'',
               att_timeIn = Some (100::int), att_timeOut = None\<rparr>"
  let ?r2 = "\<lparr>att_id = ''a1'', att_eventId = ''e1'', att_studentId = ''st1'',
               att_timeIn = Some (100::int), att_timeOut = Some (200::int)\<rparr>"
  have h1: "attendanceOf (demo_db\<lparr>attendance := [?r0]\<rparr>) ''e1'' ''st1'' = []
            \<and> ''a1'' \<notin> set (map att_id (attendance (demo_db\<lparr>attendance := [?r0]\<rparr>)))"
    by (simp add: attendanceOf_def)
  have h2: "attendanceOf (demo_db\<lparr>attendance := [?r0, ?r1]\<rparr>) ''e1'' ''st1'' = ?r1 # []
            \<and> att_timeOut ?r1 = None
            \<and> distinct (map att_id (attendance (demo_db\<lparr>attendance := [?r0, ?r1]\<rparr>)))"
    by (simp add: attendanceOf_def)
  have h3: "attendanceOf (demo_db\<lparr>attendance := [?r0, ?r2]\<rparr>) ''e1'' ''st1'' = ?r2 # []
            \<and> att_timeOut ?r2 \<noteq> None"
    by (simp add: attendanceOf_def)
  have c1: "record_attendance 100 ''a1'' ''e1'' ''st1'' (demo_db\<lparr>attendance := [?r0]\<rparr>) =
              ((200, CheckinBody ''in'' (Some ?r1)), demo_db\<lparr>attendance := [?r0, ?r1]\<rparr>)"
    using checkin_state_machine
            [where s = "demo_db\<lparr>attendance := [?r0]\<rparr>" and e = "''e1''" and st = "''st1''"
               and newId = "''a1''" and now = 100, THEN conjunct1, rule_format, OF h1]
    by simp
  have c2: "record_attendance 200 ''a2'' ''e1'' ''st1'' (demo_db\<lparr>attendance := [?r0, ?r1]\<rparr>) =
              ((200, CheckinBody ''out'' (Some ?r2)), demo_db\<lparr>attendance := [?r0, ?r2]\<rparr>)"
    using checkin_state_machine
            [where s = "demo_db\<lparr>attendance := [?r0, ?r1]\<rparr>" and e = "''e1''"
               and st = "''st1''" and newId = "''a2''" and now = 200,
             THEN conjunct2, THEN conjunct1, rule_format, OF h2]
    by simp
  have c3: "record_attendance 300 ''a3'' ''e1'' ''st1'' (demo_db\<lparr>attendance := [?r0, ?r2]\<rparr>) =
              ((400, Message ''Attendance already complete''),
               demo_db\<lparr>attendance := [?r0, ?r2]\<rparr>)"
    using checkin_state_machine
            [where s = "demo_db\<lparr>attendance := [?r0, ?r2]\<rparr>" and e = "''e1''"
               and st = "''st1''" and newId = "''a3''" and now = 300,
             THEN conjunct2, THEN conjunct2, THEN conjunct1, rule_format, OF h3]
    by simp
  from c1 c2 c3 show ?thesis by simp
qed

section \<open>Student lookup\<close>

lemma set_leftJoin_fst: "fst ` set (leftJoin ls rs on) = set ls"
proof (induction ls)
  case Nil
  then show ?case by (simp add: leftJoin_def)
next
  case (Cons l ls)
  have step: "leftJoin (l # ls) rs on =
      (case filter (on l) rs of [] \<Rightarrow> [(l, None)] | m # ms \<Rightarrow> map (\<lambda>r. (l, Some r)) (m # ms))
      @ leftJoin ls rs on"
    by (simp add: leftJoin_def)
  have "fst ` set (case filter (on l) rs of [] \<Rightarrow> [(l, None)]
                   | m # ms \<Rightarrow> map (\<lambda>r. (l, Some r)) (m # ms)) = {l}"
    by (cases "filter (on l) rs") (auto simp: image_iff)
  with Cons step show ?case by (simp add: image_Un)
qed

lemma studentsJoined_students: "(\<lambda>r. fst (fst r)) ` set (studentsJoined s) = set (students s)"
proof -
  have "(\<lambda>r. fst (fst r)) ` set (studentsJoined s) = fst ` (fst ` set (studentsJoined s))"
    by (simp add: image_image)
  then show ?thesis by (simp add: studentsJoined_def set_leftJoin_fst)
qed

lemma getStudentByStudentId_None:
  "getStudentByStudentId s x = None \<longleftrightarrow> x \<notin> set (map stu_studentId (students s))"
proof -
  have "getStudentByStudentId s x = None \<longleftrightarrow>
        first (filter (\<lambda>r. stu_studentId (fst (fst r)) = x) (studentsJoined s)) = None"
    by (simp add: getStudentByStudentId_def split_def split: option.splits)
  also have "\<dots> \<longleftrightarrow> (\<forall>st\<in>(\<lambda>r. fst (fst r)) ` set (studentsJoined s). stu_studentId st \<noteq> x)"
    by (simp add: first_filter_None)
  finally show ?thesis by (auto simp: studentsJoined_students)
qed

lemma getStudentByStudentId_Some:
  assumes "getStudentByStudentId s x = Some v"
  shows "swe_student v \<in> set (students s) \<and> stu_studentId (swe_student v) = x"
proof -
  from assms obtain r where r: "first (filter (\<lambda>((st, c), sec). stu_studentId st = x) (studentsJoined s)) = Some r"
    and v: "v = withEnrollment r"
    by (auto simp: getStudentByStudentId_def split: option.splits)
  from first_filter_Some [OF r] have "r \<in> set (studentsJoined s)" "stu_studentId (fst (fst r)) = x"
    by (auto split: prod.splits)
  moreover have "swe_student v = fst (fst r)" using v by (simp add: withEnrollment_def split: prod.splits)
  ultimately show ?thesis using studentsJoined_students [of s] by (metis image_eqI)
qed

lemma getStudentByStudentId_frame:
  "students s' = students s \<Longrightarrow> courses s' = courses s \<Longrightarrow> sections s' = sections s \<Longrightarrow>
   getStudentByStudentId s' x = getStudentByStudentId s x"
  by (simp add: getStudentByStudentId_def studentsJoined_def)

section \<open>The target of a check-in\<close>

lemma checkin_target_frame:
  assumes "students s' = students s" "courses s' = courses s" "sections s' = sections s"
  shows "checkin_target ext user b s' = checkin_target ext user b s"
proof -
  have "\<And>x. getStudentByStudentId s' x = getStudentByStudentId s x"
    using assms by (rule getStudentByStudentId_frame)
  then show ?thesis
    by (simp add: checkin_target_def cong: option.case_cong prod.case_cong parsed_payload.case_cong)
qed

lemma checkin_target_manual:
  assumes "truthy (cr_qrCodeData b) = None"
      and "truthy (cr_studentId b) = Some manualStudentId"
      and "truthy (cr_eventId b) = Some manualEventId"
      and "getStudentByStudentId s manualStudentId = Some student"
  shows "checkin_target ext user b s = Inr (manualEventId, stu_id (swe_student student))"
  using assms by (simp add: checkin_target_def)

text \<open>
  C9. The manual path of the check-in asks for authentication only. For every caller
  the middleware admits, whatever the role, a request without QR payload whose manual
  \<open>studentId\<close> resolves to a student and whose \<open>eventId\<close> is non-empty runs the
  attendance state machine of that event and student. The handler never reads the
  role: replacing the caller's role by any other gives the same run.
\<close>

theorem manual_checkin_needs_no_role:
  assumes "authMiddleware ext now s authorization = Inr user"
      and "truthy (cr_qrCodeData b) = None"
      and "truthy (cr_studentId b) = Some manualStudentId"
      and "truthy (cr_eventId b) = Some manualEventId"
      and "getStudentByStudentId s manualStudentId = Some student"
  shows "post_attendance_checkin ext now newId authorization b s =
           record_attendance now newId manualEventId (stu_id (swe_student student)) s
         \<and> checkin ext now newId (user\<lparr>usr_role := anyRole\<rparr>) b s =
           record_attendance now newId manualEventId (stu_id (swe_student student)) s"
  using assms checkin_target_manual [OF assms(2-5)]
  by (simp add: post_attendance_checkin_def checkin_def)

text \<open>Ann, whose role is \<open>student\<close>, checks Bob in by hand.\<close>

theorem manual_checkin_needs_no_role_witness:
  "authMiddleware sample_env 100 demo_db (Some ''Bearer jwt.u2'') = Inr ann_user
   \<and> usr_role ann_user = ''student''
   \<and> post_attendance_checkin sample_env 100 ''a1'' (Some ''Bearer jwt.u2'')
       \<lparr>cr_qrCodeData = None, cr_studentId = Some ''2024-002'', cr_eventId = Some ''e1''\<rparr> demo_db =
     ((200, CheckinBody ''in''
              (Some \<lparr>att_id = ''a1'', att_eventId = ''e1'', att_studentId = ''st2'',
                     att_timeIn = Some 100, att_timeOut = None\<rparr>)),
      demo_db\<lparr>attendance :=
        [\<lparr>att_id = ''a1'', att_eventId = ''e1'', att_studentId = ''st2'',
          att_timeIn = Some 100, att_timeOut = None\<rparr>]\<rparr>)"
proof -
  let ?b = "\<lparr>cr_qrCodeData = None, cr_studentId = Some ''2024-002'', cr_eventId = Some ''e1''\<rparr>"
  have auth: "authMiddleware sample_env 100 demo_db (Some ''Bearer jwt.u2'') = Inr ann_user"
    by (simp add: authMiddleware_def sample_env_def getUser_def demo_db_def admin_user_def
                  ann_user_def)
  have bob: "getStudentByStudentId demo_db ''2024-002'' =
               Some \<lparr>swe_student = bob, swe_course = Some course1, swe_section = Some sectionB\<rparr>"
    by (simp add: getStudentByStudentId_def studentsJoined_def leftJoin_def demo_db_def ann_def
                  bob_def course1_def sectionA_def sectionB_def withEnrollment_def)
  have run: "record_attendance 100 ''a1'' ''e1'' ''st2'' demo_db =
     ((200, CheckinBody ''in''
              (Some \<lparr>att_id = ''a1'', att_eventId = ''e1'', att_studentId = ''st2'',
                     att_timeIn = Some 100, att_timeOut = None\<rparr>)),
      demo_db\<lparr>attendance :=
        [\<lparr>att_id = ''a1'', att_eventId = ''e1'', att_studentId = ''st2'',
          att_timeIn = Some 100, att_timeOut = None\<rparr>]\<rparr>)"
    by (simp add: record_attendance_absent getAttendance_def demo_db_def)
  have "post_attendance_checkin sample_env 100 ''a1'' (Some ''Bearer jwt.u2'') ?b demo_db =
          record_attendance 100 ''a1'' ''e1'' (stu_id bob) demo_db"
    using manual_checkin_needs_no_role [OF auth _ _ _ bob, of ?b "''e1''" "''a1''"]
    by simp
  then show ?thesis using auth run by (simp add: bob_def ann_user_def)
qed

lemma record_attendance_events:
  "record_attendance now newId e st (s\<lparr>events := evs\<rparr>) =
     (case record_attendance now newId e st s of (r, s') \<Rightarrow> (r, s'\<lparr>events := evs\<rparr>))"
  by (simp add: record_attendance_def checkin_write_def getAttendance_def createAttendance_def
                updateAttendance_def Let_def split: option.splits)

lemma checkin_events:
  "checkin ext now newId user b (s\<lparr>events := evs\<rparr>) =
     (case checkin ext now newId user b s of (r, s') \<Rightarrow> (r, s'\<lparr>events := evs\<rparr>))"
proof -
  have "checkin_target ext user b (s\<lparr>events := evs\<rparr>) = checkin_target ext user b s"
    by (rule checkin_target_frame) simp_all
  then show ?thesis
    by (simp add: checkin_def record_attendance_events split: sum.splits prod.splits)
qed

text \<open>
  C10. The check-in never consults the event table. Replacing the event table by any
  other, the empty one included, changes neither the response nor what is written.
  Whenever the request resolves to an event identifier and a student, no attendance
  row exists for the pair and the fresh identifier is unused, the handler adds an
  attendance row that refers to that event identifier and answers \<open>in\<close>, whether or
  not an event row has this identifier.
\<close>

theorem checkin_never_reads_events:
  "checkin ext now newId user b (s\<lparr>events := evs\<rparr>) =
     (case checkin ext now newId user b s of (r, s') \<Rightarrow> (r, s'\<lparr>events := evs\<rparr>))
   \<and> (checkin_target ext user b s = Inr (eventId, studentId)
        \<and> getAttendance s eventId studentId = None
        \<and> newId \<notin> set (map att_id (attendance s)) \<longrightarrow>
      checkin ext now newId user b s =
        ((200, CheckinBody ''in''
                 (Some \<lparr>att_id = newId, att_eventId = eventId, att_studentId = studentId,
                        att_timeIn = Some now, att_timeOut = None\<rparr>)),
         s\<lparr>attendance := attendance s @
              [\<lparr>att_id = newId, att_eventId = eventId, att_studentId = studentId,
                att_timeIn = Some now, att_timeOut = None\<rparr>]\<rparr>))"
proof (intro conjI impI)
  show "checkin ext now newId user b (s\<lparr>events := evs\<rparr>) =
     (case checkin ext now newId user b s of (r, s') \<Rightarrow> (r, s'\<lparr>events := evs\<rparr>))"
    by (rule checkin_events)
next
  assume "checkin_target ext user b s = Inr (eventId, studentId)
        \<and> getAttendance s eventId studentId = None
        \<and> newId \<notin> set (map att_id (attendance s))"
  then show "checkin ext now newId user b s =
        ((200, CheckinBody ''in''
                 (Some \<lparr>att_id = newId, att_eventId = eventId, att_studentId = studentId,
                        att_timeIn = Some now, att_timeOut = None\<rparr>)),
         s\<lparr>attendance := attendance s @
              [\<lparr>att_id = newId, att_eventId = eventId, att_studentId = studentId,
                att_timeIn = Some now, att_timeOut = None\<rparr>]\<rparr>)"
    by (simp add: checkin_def record_attendance_absent)
qed

text \<open>The administrator checks Ann in at an event that has no row.\<close>

theorem checkin_never_reads_events_witness:
  "''no-such-event'' \<notin> set (map evt_id (events demo_db))
   \<and> checkin sample_env 100 ''a1'' admin_user
       \<lparr>cr_qrCodeData = None, cr_studentId = Some ''2024-001'',
        cr_eventId = Some ''no-such-event''\<rparr> demo_db =
     ((200, CheckinBody ''in''
              (Some \<lparr>att_id = ''a1'', att_eventId = ''no-such-event'', att_studentId = ''st1'',
                     att_timeIn = Some 100, att_timeOut = None\<rparr>)),
      demo_db\<lparr>attendance :=
        [\<lparr>att_id = ''a1'', att_eventId = ''no-such-event'', att_studentId = ''st1'',
          att_timeIn = Some 100, att_timeOut = None\<rparr>]\<rparr>)"
proof -
  let ?b = "\<lparr>cr_qrCodeData = None, cr_studentId = Some ''2024-001'',
             cr_eventId = Some ''no-such-event''\<rparr>"
  have ann: "getStudentByStudentId demo_db ''2024-001'' =
               Some \<lparr>swe_student = ann, swe_course = Some course1, swe_section = Some sectionA\<rparr>"
    by (simp add: getStudentByStudentId_def studentsJoined_def leftJoin_def demo_db_def ann_def
                  bob_def course1_def sectionA_def sectionB_def withEnrollment_def)
  have h: "checkin_target sample_env admin_user ?b demo_db = Inr (''no-such-event'', ''st1'')
           \<and> getAttendance demo_db ''no-such-event'' ''st1'' = None
           \<and> ''a1'' \<notin> set (map att_id (attendance demo_db))"
    using ann by (simp add: checkin_target_def getAttendance_def ann_def) (simp add: demo_db_def)
  have "checkin sample_env 100 ''a1'' admin_user ?b demo_db =
     ((200, CheckinBody ''in''
              (Some \<lparr>att_id = ''a1'', att_eventId = ''no-such-event'', att_studentId = ''st1'',
                     att_timeIn = Some 100, att_timeOut = None\<rparr>)),
      demo_db\<lparr>attendance := attendance demo_db @
        [\<lparr>att_id = ''a1'', att_eventId = ''no-such-event'', att_studentId = ''st1'',
          att_timeIn = Some 100, att_timeOut = None\<rparr>]\<rparr>)"
    using checkin_never_reads_events
            [where ext = sample_env and now = 100 and newId = "''a1''" and user = admin_user
               and b = ?b and s = demo_db, THEN conjunct2, rule_format, OF h] .
  moreover have "attendance demo_db = []" "events demo_db = [event1]"
    by (simp_all add: demo_db_def)
  ultimately show ?thesis by (simp add: event1_def)
qed

section \<open>Login and registration\<close>

text \<open>
  C5. A login that passes validation and fails, because no user has the email or
  because the password does not verify against the stored digest, gets one and the
  same response in both cases: status 401 with the message \<open>Invalid credentials\<close>.
  More generally the response to a failed login depends on the request alone: the same
  request, failing against any two databases at any two times, gets the same response,
  so a failure tells the caller nothing about which accounts exist.
\<close>

theorem login_failure_is_uniform:
  "(loginSchema ext b = Some (email, password)
    \<and> (getUserByEmail s email = None
         \<or> (\<exists>u. getUserByEmail s email = Some u
                  \<and> \<not> bcrypt_compare ext password (usr_password u))) \<longrightarrow>
      login ext now b s = (401, Message ''Invalid credentials''))
   \<and> (fst (login ext now b s) \<noteq> 200 \<and> fst (login ext now' b s') \<noteq> 200 \<longrightarrow>
      login ext now b s = login ext now' b s')"
proof (intro conjI impI)
  assume "loginSchema ext b = Some (email, password)
    \<and> (getUserByEmail s email = None
         \<or> (\<exists>u. getUserByEmail s email = Some u
                  \<and> \<not> bcrypt_compare ext password (usr_password u)))"
  then show "login ext now b s = (401, Message ''Invalid credentials'')"
    by (auto simp: login_def)
next
  assume "fst (login ext now b s) \<noteq> 200 \<and> fst (login ext now' b s') \<noteq> 200"
  then show "login ext now b s = login ext now' b s'"
    by (auto simp: login_def split: option.splits if_splits)
qed

text \<open>An unknown email, and Ann's email with a wrong password.\<close>

theorem login_failure_is_uniform_witness:
  "getUserByEmail demo_db ''nobody@school.edu'' = None
   \<and> login sample_env 0 \<lparr>lr_email = Some ''nobody@school.edu'', lr_password = Some ''annpass''\<rparr>
       demo_db = (401, Message ''Invalid credentials'')
   \<and> getUserByEmail demo_db ''ann@school.edu'' = Some ann_user
   \<and> \<not> bcrypt_compare sample_env ''wrong'' (usr_password ann_user)
   \<and> login sample_env 0 \<lparr>lr_email = Some ''ann@school.edu'', lr_password = Some ''wrong''\<rparr>
       demo_db = (401, Message ''Invalid credentials'')"
proof -
  have none: "getUserByEmail demo_db ''nobody@school.edu'' = None"
    by (simp add: getUserByEmail_def demo_db_def admin_user_def ann_user_def)
  have some: "getUserByEmail demo_db ''ann@school.edu'' = Some ann_user"
    by (simp add: getUserByEmail_def demo_db_def admin_user_def ann_user_def)
  have bad: "\<not> bcrypt_compare sample_env ''wrong'' (usr_password ann_user)"
    by (simp add: sample_env_def ann_user_def)
  have v1: "loginSchema sample_env
              \<lparr>lr_email = Some ''nobody@school.edu'', lr_password = Some ''annpass''\<rparr> =
            Some (''nobody@school.edu'', ''annpass'')"
    by (simp add: loginSchema_def sample_env_def)
  have v2: "loginSchema sample_env
              \<lparr>lr_email = Some ''ann@school.edu'', lr_password = Some ''wrong''\<rparr> =
            Some (''ann@school.edu'', ''wrong'')"
    by (simp add: loginSchema_def sample_env_def)
  note uniform = login_failure_is_uniform
        [where ext = sample_env and s = demo_db and now = 0, THEN conjunct1, rule_format]
  have r1: "login sample_env 0
              \<lparr>lr_email = Some ''nobody@school.edu'', lr_password = Some ''annpass''\<rparr> demo_db =
            (401, Message ''Invalid credentials'')"
    using v1 none
      uniform [where b = "\<lparr>lr_email = Some ''nobody@school.edu'', lr_password = Some ''annpass''\<rparr>"
                 and email = "''nobody@school.edu''" and password = "''annpass''"]
    by simp
  have r2: "login sample_env 0
              \<lparr>lr_email = Some ''ann@school.edu'', lr_password = Some ''wrong''\<rparr> demo_db =
            (401, Message ''Invalid credentials'')"
    using v2 some bad
      uniform [where b = "\<lparr>lr_email = Some ''ann@school.edu'', lr_password = Some ''wrong''\<rparr>"
                 and email = "''ann@school.edu''" and password = "''wrong''"]
    by simp
  from none some bad r1 r2 show ?thesis by simp
qed

lemma getUserByEmail_None:
  "getUserByEmail s email = None \<longleftrightarrow> email \<notin> set (map usr_email (users s))"
  by (auto simp: getUserByEmail_def first_filter_None)

lemma first_filter_append_new:
  "\<forall>x\<in>set xs. \<not> P x \<Longrightarrow> P y \<Longrightarrow> first (filter P (xs @ [y])) = Some y"
  by (induction xs) auto

lemma registerSchema_Some:
  assumes "registerSchema ext b = Some v"
  shows "isEmail ext (reg_email v) \<and> 6 \<le> length (reg_password v)"
  using assms by (auto simp: registerSchema_def split: option.splits if_splits)

lemma digit_facts:
  "isDigit c \<Longrightarrow> \<not> isSpace c \<and> c \<noteq> CHR ''-'' \<and> c \<noteq> CHR ''+'' \<and> c \<noteq> CHR ''x'' \<and> c \<noteq> CHR ''X''"
  by (auto simp: isDigit_def isSpace_def)

lemma takeWhile_all: "list_all P xs \<Longrightarrow> takeWhile P xs = xs"
  by (induction xs) auto

lemma parseInt_digits:
  assumes "age \<noteq> []" "list_all isDigit age"
  shows "parseInt age = Some (digitsValue 10 age)"
proof -
  from assms obtain c cs where age: "age = c # cs" and c: "isDigit c" and cs: "list_all isDigit cs"
    by (cases age) auto
  have nohex: "\<not> startsWith ''0x'' age" "\<not> startsWith ''0X'' age"
    using age cs digit_facts by (cases cs; auto)+
  have plain: "dropWhile isSpace age = age" "\<not> startsWith ''-'' age" "\<not> startsWith ''+'' age"
    using age c digit_facts by auto
  show ?thesis
    using assms plain nohex by (simp add: parseInt_def Let_def takeWhile_all)
qed

lemma registerSchema_age:
  assumes "registerSchema ext b = Some v"
  shows "parseInt (reg_age v) = Some (digitsValue 10 (reg_age v))"
proof -
  from assms have "reg_age v \<noteq> [] \<and> list_all isDigit (reg_age v)"
    by (auto simp: registerSchema_def split: option.splits if_splits)
  then show ?thesis by (simp add: parseInt_digits)
qed

lemma register_success:
  assumes v: "registerSchema ext b = Some v"
      and st: "getStudentByStudentId s (reg_studentId v) = Some student"
      and em: "getUserByEmail s (reg_email v) = None"
      and age: "int32 (digitsValue 10 (reg_age v))"
      and fresh: "newId \<notin> set (map usr_id (users s))"
  shows "\<exists>s'. register ext salt newId file b s = ((200, Message ''Registration successful''), s')
           \<and> users s' = users s @
                [\<lparr>usr_id = newId, usr_email = reg_email v,
                  usr_password = bcrypt_hash ext (reg_password v) salt,
                  usr_role = ''student'', usr_studentId = Some (reg_studentId v)\<rparr>]"
proof -
  let ?p = "\<lparr>ps_studentId = None, ps_name = None, ps_courseId = None, ps_sectionId = None,
             ps_age = Some (Some (digitsValue 10 (reg_age v))),
             ps_email = Some (Some (reg_email v)),
             ps_birthday = Some (Some (reg_birthday v)),
             ps_profilePicture = Some (Some (case file of
                             Some f \<Rightarrow>
                               ''data:'' @ fp_mimetype f @ '';base64,''
                                 @ Buffer_toBase64 ext (fp_buffer f)
                           | None \<Rightarrow> []))\<rparr>"
  obtain updated s1 where up: "updateStudent s (stu_id (swe_student student)) ?p = Inr (updated, s1)"
    and u1: "users s1 = users s"
    using age by (simp add: updateStudent_def emptyPatchStudent_def Let_def)
  have notin: "reg_email v \<notin> set (map usr_email (users s))"
    using em by (simp add: getUserByEmail_None)
  let ?row = "\<lparr>usr_id = newId, usr_email = reg_email v,
                  usr_password = bcrypt_hash ext (reg_password v) salt,
                  usr_role = ''student'', usr_studentId = Some (reg_studentId v)\<rparr>"
  have cu: "createUser s1 newId \<lparr>iu_email = reg_email v,
               iu_password = bcrypt_hash ext (reg_password v) salt,
               iu_role = ''student'', iu_studentId = Some (reg_studentId v)\<rparr>
            = Inr (?row, s1\<lparr>users := users s @ [?row]\<rparr>)"
    using notin fresh u1 by (simp add: createUser_def Let_def)
  have "register ext salt newId file b s =
          ((200, Message ''Registration successful''), s1\<lparr>users := users s @ [?row]\<rparr>)"
    using v st em up cu registerSchema_age [OF v] by (simp add: register_def Let_def)
  then show ?thesis by simp
qed

text \<open>
  C4, as amended. The route runs the upload middleware, then the handler. A request
  whose upload is refused (a file in another field, a type other than the four image
  types, a file over 2 MB, a second file) goes to the error handling: the handler does
  not run and nothing is written. With the upload accepted, the request is validated:
  a request that fails the schema is answered 400, invalid input, and nothing is
  written. For a request that passes: when no student row has the \<open>studentId\<close>, the
  answer is 404, student id not found, and nothing is written; when a student row has
  it and a user already has the email, the answer is 400, email already registered, and
  nothing is written; when a student row has it, no user has the email, the age fits
  the 32-bit integer column and the fresh identifier is unused, the registration
  succeeds and the user table gains exactly one row, for that email, whose stored
  digest is the hash of the supplied password. If the hashing service verifies a
  password against its own digest, a login with the same email and password then
  succeeds.
\<close>

theorem registration_outcomes:
  "(\<forall>e. upload_single files = Inl e \<longrightarrow>
      post_auth_register ext salt newId files b s = (errorHandling ext e, s))
   \<and> (\<forall>file. upload_single files = Inr file \<longrightarrow>
        (registerSchema ext b = None \<longrightarrow>
           post_auth_register ext salt newId files b s = ((400, InvalidInput), s))
      \<and> (\<forall>v. registerSchema ext b = Some v \<longrightarrow>
           (reg_studentId v \<notin> set (map stu_studentId (students s)) \<longrightarrow>
              post_auth_register ext salt newId files b s =
                ((404, Message ''Student ID not found in system''), s))
         \<and> (reg_studentId v \<in> set (map stu_studentId (students s))
              \<and> reg_email v \<in> set (map usr_email (users s)) \<longrightarrow>
              post_auth_register ext salt newId files b s =
                ((400, Message ''Email already registered''), s))
         \<and> (reg_studentId v \<in> set (map stu_studentId (students s))
              \<and> reg_email v \<notin> set (map usr_email (users s))
              \<and> int32 (digitsValue 10 (reg_age v))
              \<and> newId \<notin> set (map usr_id (users s)) \<longrightarrow>
              (\<exists>s'. post_auth_register ext salt newId files b s =
                      ((200, Message ''Registration successful''), s')
                 \<and> users s' = users s @
                      [\<lparr>usr_id = newId, usr_email = reg_email v,
                        usr_password = bcrypt_hash ext (reg_password v) salt,
                        usr_role = ''student'', usr_studentId = Some (reg_studentId v)\<rparr>]
                 \<and> (bcrypt_compare ext (reg_password v)
                       (bcrypt_hash ext (reg_password v) salt) \<longrightarrow>
                      login ext now
                        \<lparr>lr_email = Some (reg_email v), lr_password = Some (reg_password v)\<rparr> s' =
                      (200, LoginBody (jwt_sign ext newId now) newId (reg_email v) ''student''
                              (Some (reg_studentId v))))))))"
proof (intro conjI allI impI)
  fix e
  assume "upload_single files = Inl e"
  then show "post_auth_register ext salt newId files b s = (errorHandling ext e, s)"
    by (simp add: post_auth_register_def)
next
  fix picture
  assume "upload_single files = Inr picture" "registerSchema ext b = None"
  then show "post_auth_register ext salt newId files b s = ((400, InvalidInput), s)"
    by (simp add: post_auth_register_def register_def)
next
  fix picture v
  assume up: "upload_single files = Inr picture"
    and v: "registerSchema ext b = Some v"
    and "reg_studentId v \<notin> set (map stu_studentId (students s))"
  then have "getStudentByStudentId s (reg_studentId v) = None"
    by (simp add: getStudentByStudentId_None)
  with up v show "post_auth_register ext salt newId files b s =
             ((404, Message ''Student ID not found in system''), s)"
    by (simp add: post_auth_register_def register_def)
next
  fix picture v
  assume up: "upload_single files = Inr picture"
    and v: "registerSchema ext b = Some v"
    and h: "reg_studentId v \<in> set (map stu_studentId (students s))
           \<and> reg_email v \<in> set (map usr_email (users s))"
  from h obtain student where "getStudentByStudentId s (reg_studentId v) = Some student"
    using getStudentByStudentId_None [of s "reg_studentId v"] by auto
  moreover from h obtain u where "getUserByEmail s (reg_email v) = Some u"
    using getUserByEmail_None [of s "reg_email v"] by auto
  ultimately show "post_auth_register ext salt newId files b s =
                     ((400, Message ''Email already registered''), s)"
    using up v by (simp add: post_auth_register_def register_def)
next
  fix picture v
  assume up: "upload_single files = Inr picture"
    and v: "registerSchema ext b = Some v"
    and h: "reg_studentId v \<in> set (map stu_studentId (students s))
           \<and> reg_email v \<notin> set (map usr_email (users s))
           \<and> int32 (digitsValue 10 (reg_age v))
           \<and> newId \<notin> set (map usr_id (users s))"
  from h obtain student where st: "getStudentByStudentId s (reg_studentId v) = Some student"
    using getStudentByStudentId_None [of s "reg_studentId v"] by auto
  from h have em: "getUserByEmail s (reg_email v) = None"
    by (simp add: getUserByEmail_None)
  let ?row = "\<lparr>usr_id = newId, usr_email = reg_email v,
                  usr_password = bcrypt_hash ext (reg_password v) salt,
                  usr_role = ''student'', usr_studentId = Some (reg_studentId v)\<rparr>"
  from register_success [OF v st em, of newId salt picture] h
  obtain s' where run0: "register ext salt newId picture b s =
                           ((200, Message ''Registration successful''), s')"
    and us: "users s' = users s @ [?row]"
    by auto
  from run0 up have run: "post_auth_register ext salt newId files b s =
                            ((200, Message ''Registration successful''), s')"
    by (simp add: post_auth_register_def)
  have "\<forall>u\<in>set (users s). \<not> usr_email u = reg_email v"
    using em by (simp add: getUserByEmail_def first_filter_None)
  then have "first (filter (\<lambda>u. usr_email u = reg_email v) (users s @ [?row])) = Some ?row"
    by (rule first_filter_append_new) simp
  then have look: "getUserByEmail s' (reg_email v) = Some ?row"
    using us by (simp add: getUserByEmail_def)
  have valid: "loginSchema ext \<lparr>lr_email = Some (reg_email v), lr_password = Some (reg_password v)\<rparr>
                 = Some (reg_email v, reg_password v)"
    using registerSchema_Some [OF v] by (simp add: loginSchema_def)
  have "bcrypt_compare ext (reg_password v) (bcrypt_hash ext (reg_password v) salt) \<longrightarrow>
          login ext now \<lparr>lr_email = Some (reg_email v), lr_password = Some (reg_password v)\<rparr> s' =
            (200, LoginBody (jwt_sign ext newId now) newId (reg_email v) ''student''
                    (Some (reg_studentId v)))"
    using look valid by (simp add: login_def)
  with run us
  show "\<exists>s'. post_auth_register ext salt newId files b s =
                ((200, Message ''Registration successful''), s')
              \<and> users s' = users s @ [?row]
              \<and> (bcrypt_compare ext (reg_password v) (bcrypt_hash ext (reg_password v) salt) \<longrightarrow>
                   login ext now
                     \<lparr>lr_email = Some (reg_email v), lr_password = Some (reg_password v)\<rparr> s' =
                   (200, LoginBody (jwt_sign ext newId now) newId (reg_email v) ''student''
                           (Some (reg_studentId v))))"
    by blast
qed

text \<open>
  A PDF in place of the picture; a request without age; an unknown student id; Bob with
  Ann's email; Bob with his own email and a PNG, followed by his login.
\<close>

theorem registration_outcomes_witness:
  "post_auth_register sample_env ''s3'' ''u3''
       [\<lparr>fp_fieldname = ''profilePicture'', fp_mimetype = ''application/pdf'',
         fp_buffer = ''%PDF''\<rparr>]
       \<lparr>rr_studentId = Some ''2024-002'', rr_email = Some ''bob@school.edu'',
        rr_password = Some ''bobpass'', rr_age = Some ''21'',
        rr_birthday = Some ''2003-01-01''\<rparr> demo_db
     = ((400, Message ''Invalid file type. Only JPEG, PNG, and WebP images are allowed.''),
        demo_db)
   \<and> post_auth_register sample_env ''s3'' ''u3'' []
       \<lparr>rr_studentId = Some ''2024-002'', rr_email = Some ''bob@school.edu'',
        rr_password = Some ''bobpass'', rr_age = None, rr_birthday = Some ''2003-01-01''\<rparr> demo_db
     = ((400, InvalidInput), demo_db)
   \<and> post_auth_register sample_env ''s3'' ''u3'' []
       \<lparr>rr_studentId = Some ''2024-999'', rr_email = Some ''zed@school.edu'',
        rr_password = Some ''zedpass'', rr_age = Some ''21'',
        rr_birthday = Some ''2003-01-01''\<rparr> demo_db
     = ((404, Message ''Student ID not found in system''), demo_db)
   \<and> post_auth_register sample_env ''s3'' ''u3'' []
       \<lparr>rr_studentId = Some ''2024-002'', rr_email = Some ''ann@school.edu'',
        rr_password = Some ''bobpass'', rr_age = Some ''21'',
        rr_birthday = Some ''2003-01-01''\<rparr> demo_db
     = ((400, Message ''Email already registered''), demo_db)
   \<and> fst (post_auth_register sample_env ''s3'' ''u3''
       [\<lparr>fp_fieldname = ''profilePicture'', fp_mimetype = ''image/png'', fp_buffer = ''PNG''\<rparr>]
       \<lparr>rr_studentId = Some ''2024-002'', rr_email = Some ''bob@school.edu'',
        rr_password = Some ''bobpass'', rr_age = Some ''21'',
        rr_birthday = Some ''2003-01-01''\<rparr> demo_db)
     = (200, Message ''Registration successful'')
   \<and> login sample_env 7 \<lparr>lr_email = Some ''bob@school.edu'', lr_password = Some ''bobpass''\<rparr>
       (snd (post_auth_register sample_env ''s3'' ''u3''
         [\<lparr>fp_fieldname = ''profilePicture'', fp_mimetype = ''image/png'', fp_buffer = ''PNG''\<rparr>]
         \<lparr>rr_studentId = Some ''2024-002'', rr_email = Some ''bob@school.edu'',
          rr_password = Some ''bobpass'', rr_age = Some ''21'',
          rr_birthday = Some ''2003-01-01''\<rparr> demo_db))
     = (200, LoginBody ''jwt.u3'' ''u3'' ''bob@school.edu'' ''student'' (Some ''2024-002''))"
proof -
  let ?pdf = "[\<lparr>fp_fieldname = ''profilePicture'', fp_mimetype = ''application/pdf'',
                fp_buffer = ''%PDF''\<rparr>]"
  let ?png = "\<lparr>fp_fieldname = ''profilePicture'', fp_mimetype = ''image/png'', fp_buffer = ''PNG''\<rparr>"
  let ?b0 = "\<lparr>rr_studentId = Some ''2024-002'', rr_email = Some ''bob@school.edu'',
        rr_password = Some ''bobpass'', rr_age = None, rr_birthday = Some ''2003-01-01''\<rparr>"
  let ?b1 = "\<lparr>rr_studentId = Some ''2024-999'', rr_email = Some ''zed@school.edu'',
        rr_password = Some ''zedpass'', rr_age = Some ''21'', rr_birthday = Some ''2003-01-01''\<rparr>"
  let ?b2 = "\<lparr>rr_studentId = Some ''2024-002'', rr_email = Some ''ann@school.edu'',
        rr_password = Some ''bobpass'', rr_age = Some ''21'', rr_birthday = Some ''2003-01-01''\<rparr>"
  let ?b3 = "\<lparr>rr_studentId = Some ''2024-002'', rr_email = Some ''bob@school.edu'',
        rr_password = Some ''bobpass'', rr_age = Some ''21'', rr_birthday = Some ''2003-01-01''\<rparr>"
  let ?v1 = "\<lparr>reg_studentId = ''2024-999'', reg_email = ''zed@school.edu'',
        reg_password = ''zedpass'', reg_age = ''21'', reg_birthday = ''2003-01-01''\<rparr>"
  let ?v2 = "\<lparr>reg_studentId = ''2024-002'', reg_email = ''ann@school.edu'',
        reg_password = ''bobpass'', reg_age = ''21'', reg_birthday = ''2003-01-01''\<rparr>"
  let ?v3 = "\<lparr>reg_studentId = ''2024-002'', reg_email = ''bob@school.edu'',
        reg_password = ''bobpass'', reg_age = ''21'', reg_birthday = ''2003-01-01''\<rparr>"
  have refused: "upload_single ?pdf = Inl InvalidFileType"
    by (simp add: upload_single_def allowedMimes_def)
  have nofile: "upload_single [] = Inr None"
    by (simp add: upload_single_def)
  have accepted: "upload_single [?png] = Inr (Some ?png)"
    by (simp add: upload_single_def allowedMimes_def fileSizeLimit_def)
  have s0: "registerSchema sample_env ?b0 = None"
    by (simp add: registerSchema_def)
  have s1: "registerSchema sample_env ?b1 = Some ?v1"
    by (simp add: registerSchema_def sample_env_def isDigit_def)
  have s2: "registerSchema sample_env ?b2 = Some ?v2"
    by (simp add: registerSchema_def sample_env_def isDigit_def)
  have s3: "registerSchema sample_env ?b3 = Some ?v3"
    by (simp add: registerSchema_def sample_env_def isDigit_def)
  have tables: "map stu_studentId (students demo_db) = [''2024-001'', ''2024-002'']"
    "map usr_email (users demo_db) = [''admin@attendance.com'', ''ann@school.edu'']"
    "map usr_id (users demo_db) = [''u1'', ''u2'']"
    by (simp_all add: demo_db_def ann_def bob_def admin_user_def ann_user_def)
  have age: "int32 (digitsValue 10 ''21'')"
    by (simp add: int32_def digitsValue_def digitOf_def isDigit_def)
  have digest: "bcrypt_compare sample_env ''bobpass'' (bcrypt_hash sample_env ''bobpass'' ''s3'')"
    by (simp add: sample_env_def)
  note out = registration_outcomes [where ext = sample_env and salt = "''s3''" and newId = "''u3''"
                and s = demo_db and now = 7]
  have rx: "post_auth_register sample_env ''s3'' ''u3'' ?pdf ?b3 demo_db =
              ((400, Message ''Invalid file type. Only JPEG, PNG, and WebP images are allowed.''),
               demo_db)"
    using out [where files = ?pdf and b = ?b3, THEN conjunct1, rule_format, OF refused]
    by (simp add: sample_env_def multerErrorResponse_def)
  have r0: "post_auth_register sample_env ''s3'' ''u3'' [] ?b0 demo_db =
              ((400, InvalidInput), demo_db)"
    using out [where files = "[]" and b = ?b0, THEN conjunct2, rule_format, OF nofile,
               THEN conjunct1] s0 by simp
  have r1: "post_auth_register sample_env ''s3'' ''u3'' [] ?b1 demo_db =
              ((404, Message ''Student ID not found in system''), demo_db)"
    using out [where files = "[]" and b = ?b1, THEN conjunct2, rule_format, OF nofile,
               THEN conjunct2, rule_format, OF s1, THEN conjunct1] tables
    by simp
  have r2: "post_auth_register sample_env ''s3'' ''u3'' [] ?b2 demo_db =
              ((400, Message ''Email already registered''), demo_db)"
    using out [where files = "[]" and b = ?b2, THEN conjunct2, rule_format, OF nofile,
               THEN conjunct2, rule_format, OF s2, THEN conjunct2, THEN conjunct1]
      tables by simp
  obtain s' where run: "post_auth_register sample_env ''s3'' ''u3'' [?png] ?b3 demo_db =
                          ((200, Message ''Registration successful''), s')"
    and log: "login sample_env 7
                \<lparr>lr_email = Some ''bob@school.edu'', lr_password = Some ''bobpass''\<rparr> s' =
              (200, LoginBody (jwt_sign sample_env ''u3'' 7) ''u3'' ''bob@school.edu'' ''student''
                      (Some ''2024-002''))"
    using out [where files = "[?png]" and b = ?b3, THEN conjunct2, rule_format, OF accepted,
               THEN conjunct2, rule_format, OF s3, THEN conjunct2, THEN conjunct2]
      tables age digest by auto
  have tok: "jwt_sign sample_env ''u3'' 7 = ''jwt.u3''"
    by (simp add: sample_env_def)
  from rx r0 r1 r2 run log tok show ?thesis by simp
qed

text \<open>
  C4, as stated, fails: a request that names no student row and has a password of three
  characters is answered 400, invalid input, not 404.
\<close>

theorem unknown_student_id_counterexample:
  "''2024-999'' \<notin> set (map stu_studentId (students demo_db))
   \<and> post_auth_register sample_env ''s3'' ''u3'' []
       \<lparr>rr_studentId = Some ''2024-999'', rr_email = Some ''zed@school.edu'',
        rr_password = Some ''abc'', rr_age = Some ''21'', rr_birthday = Some ''2003-01-01''\<rparr>
       demo_db
     = ((400, InvalidInput), demo_db)"
  by (simp add: post_auth_register_def upload_single_def register_def registerSchema_def
                demo_db_def ann_def bob_def)

section \<open>The settings row\<close>

lemma setSystemSettings_id: "set_id (setSystemSettings p now r) = set_id r"
  by (simp add: setSystemSettings_def)

lemma map_set_id_update:
  "map set_id (map (\<lambda>r. if set_id r = k then setSystemSettings p now r else r) xs) = map set_id xs"
  by (induction xs) (simp_all add: setSystemSettings_id)

text \<open>
  C6. \<open>updateSystemSettings\<close> keeps the settings table at zero or one row. On the
  empty table it inserts exactly one row, with the fresh identifier and the column
  defaults for the keys the caller left out. On a table that has a row it updates the
  first row and returns it: the identifiers in the table are the same before and
  after, so no row is inserted, and a table of one row stays a table of one row with
  the same identifier.
\<close>

theorem updateSystemSettings_zero_or_one:
  "(systemSettings s = [] \<longrightarrow>
      updateSystemSettings s now newId p =
        Inr (Some \<lparr>set_id = newId,
                   set_systemName = (case pss_systemName p of
                                       None \<Rightarrow> ''Attendance System'' | Some v \<Rightarrow> v),
                   set_qrCodeEnabled = (case pss_qrCodeEnabled p of None \<Rightarrow> True | Some v \<Rightarrow> v),
                   set_updatedAt = now\<rparr>,
             s\<lparr>systemSettings :=
                 [\<lparr>set_id = newId,
                   set_systemName = (case pss_systemName p of
                                       None \<Rightarrow> ''Attendance System'' | Some v \<Rightarrow> v),
                   set_qrCodeEnabled = (case pss_qrCodeEnabled p of None \<Rightarrow> True | Some v \<Rightarrow> v),
                   set_updatedAt = now\<rparr>]\<rparr>))
   \<and> (\<forall>x xs. systemSettings s = x # xs \<longrightarrow>
        (\<exists>s'. updateSystemSettings s now newId p = Inr (Some (setSystemSettings p now x), s')
           \<and> set_id (setSystemSettings p now x) = set_id x
           \<and> map set_id (systemSettings s') = map set_id (systemSettings s)
           \<and> length (systemSettings s') = length (systemSettings s)
           \<and> (xs = [] \<longrightarrow> systemSettings s' = [setSystemSettings p now x])))"
proof (intro conjI allI impI)
  assume "systemSettings s = []"
  then show "updateSystemSettings s now newId p =
        Inr (Some \<lparr>set_id = newId,
                   set_systemName = (case pss_systemName p of
                                       None \<Rightarrow> ''Attendance System'' | Some v \<Rightarrow> v),
                   set_qrCodeEnabled = (case pss_qrCodeEnabled p of None \<Rightarrow> True | Some v \<Rightarrow> v),
                   set_updatedAt = now\<rparr>,
             s\<lparr>systemSettings :=
                 [\<lparr>set_id = newId,
                   set_systemName = (case pss_systemName p of
                                       None \<Rightarrow> ''Attendance System'' | Some v \<Rightarrow> v),
                   set_qrCodeEnabled = (case pss_qrCodeEnabled p of None \<Rightarrow> True | Some v \<Rightarrow> v),
                   set_updatedAt = now\<rparr>]\<rparr>)"
    by (simp add: updateSystemSettings_def getSystemSettings_def Let_def)
next
  fix x xs
  assume rows: "systemSettings s = x # xs"
  let ?rows = "map (\<lambda>r. if set_id r = set_id x then setSystemSettings p now r else r)
                 (systemSettings s)"
  have run: "updateSystemSettings s now newId p =
               Inr (Some (setSystemSettings p now x), s\<lparr>systemSettings := ?rows\<rparr>)"
    using rows
    by (simp add: updateSystemSettings_def getSystemSettings_def Let_def setSystemSettings_id)
  have ids: "map set_id ?rows = map set_id (systemSettings s)"
    by (rule map_set_id_update)
  have len: "length ?rows = length (systemSettings s)"
    by simp
  have one: "xs = [] \<longrightarrow> ?rows = [setSystemSettings p now x]"
    using rows by simp
  show "\<exists>s'. updateSystemSettings s now newId p = Inr (Some (setSystemSettings p now x), s')
           \<and> set_id (setSystemSettings p now x) = set_id x
           \<and> map set_id (systemSettings s') = map set_id (systemSettings s)
           \<and> length (systemSettings s') = length (systemSettings s)
           \<and> (xs = [] \<longrightarrow> systemSettings s' = [setSystemSettings p now x])"
    using run ids len one by (simp add: setSystemSettings_id)
qed

text \<open>The first write creates the row \<open>g1\<close>; the second renames the system in it.\<close>

theorem updateSystemSettings_zero_or_one_witness:
  "systemSettings demo_db = []
   \<and> updateSystemSettings demo_db 10 ''g1'' \<lparr>pss_systemName = None, pss_qrCodeEnabled = None\<rparr> =
       Inr (Some \<lparr>set_id = ''g1'', set_systemName = ''Attendance System'',
                  set_qrCodeEnabled = True, set_updatedAt = 10\<rparr>,
            demo_db\<lparr>systemSettings :=
              [\<lparr>set_id = ''g1'', set_systemName = ''Attendance System'',
                set_qrCodeEnabled = True, set_updatedAt = 10\<rparr>]\<rparr>)
   \<and> updateSystemSettings
       (demo_db\<lparr>systemSettings :=
          [\<lparr>set_id = ''g1'', set_systemName = ''Attendance System'',
            set_qrCodeEnabled = True, set_updatedAt = 10\<rparr>]\<rparr>)
       20 ''g2'' \<lparr>pss_systemName = Some ''Roll Call'', pss_qrCodeEnabled = None\<rparr> =
       Inr (Some \<lparr>set_id = ''g1'', set_systemName = ''Roll Call'',
                  set_qrCodeEnabled = True, set_updatedAt = 20\<rparr>,
            demo_db\<lparr>systemSettings :=
              [\<lparr>set_id = ''g1'', set_systemName = ''Roll Call'',
                set_qrCodeEnabled = True, set_updatedAt = 20\<rparr>]\<rparr>)"
proof -
  let ?r1 = "\<lparr>set_id = ''g1'', set_systemName = ''Attendance System'',
               set_qrCodeEnabled = True, set_updatedAt = (10::int)\<rparr>"
  let ?r2 = "\<lparr>set_id = ''g1'', set_systemName = ''Roll Call'',
               set_qrCodeEnabled = True, set_updatedAt = (20::int)\<rparr>"
  let ?p2 = "\<lparr>pss_systemName = Some ''Roll Call'', pss_qrCodeEnabled = None\<rparr>"
  have e: "systemSettings demo_db = []"
    by (simp add: demo_db_def)
  have c1: "updateSystemSettings demo_db 10 ''g1''
              \<lparr>pss_systemName = None, pss_qrCodeEnabled = None\<rparr> =
            Inr (Some ?r1, demo_db\<lparr>systemSettings := [?r1]\<rparr>)"
    using updateSystemSettings_zero_or_one
            [where s = demo_db and now = 10 and newId = "''g1''"
               and p = "\<lparr>pss_systemName = None, pss_qrCodeEnabled = None\<rparr>",
             THEN conjunct1, rule_format, OF e]
    by simp
  have n: "systemSettings (demo_db\<lparr>systemSettings := [?r1]\<rparr>) = ?r1 # []"
    by simp
  obtain s' where run: "updateSystemSettings (demo_db\<lparr>systemSettings := [?r1]\<rparr>) 20 ''g2'' ?p2 =
                          Inr (Some (setSystemSettings ?p2 20 ?r1), s')"
    and rows: "systemSettings s' = [setSystemSettings ?p2 20 ?r1]"
    using updateSystemSettings_zero_or_one
            [where s = "demo_db\<lparr>systemSettings := [?r1]\<rparr>" and now = 20 and newId = "''g2''"
               and p = ?p2, THEN conjunct2, rule_format, OF n]
    by auto
  have upd: "setSystemSettings ?p2 20 ?r1 = ?r2"
    by (simp add: setSystemSettings_def)
  have "s' = demo_db\<lparr>systemSettings := [?r2]\<rparr>"
    using run rows upd
    by (simp add: updateSystemSettings_def getSystemSettings_def Let_def)
  with run upd e c1 show ?thesis by simp
qed

section \<open>Events in scope\<close>

lemma getEventCourseSections_rows:
  "ecj_row ` set (getEventCourseSections s eventId) =
     {r \<in> set (eventCourseSections s). ecs_eventId r = eventId}"
proof -
  let ?joined = "leftJoin
             (leftJoin (eventCourseSections s) (courses s) (\<lambda>r c. ecs_courseId r = crs_id c))
             (sections s) (\<lambda>(r, c) sec. ecs_sectionId r = sec_id sec)"
  have all: "(\<lambda>x. fst (fst x)) ` set ?joined = set (eventCourseSections s)"
  proof -
    have "(\<lambda>x. fst (fst x)) ` set ?joined = fst ` (fst ` set ?joined)"
      by (simp add: image_image)
    then show ?thesis by (simp add: set_leftJoin_fst)
  qed
  have "ecj_row ` set (getEventCourseSections s eventId) =
          (\<lambda>x. fst (fst x)) ` {x \<in> set ?joined. ecs_eventId (fst (fst x)) = eventId}"
    by (simp add: getEventCourseSections_def split_def image_image)
  also have "\<dots> = {r \<in> (\<lambda>x. fst (fst x)) ` set ?joined. ecs_eventId r = eventId}"
    by auto
  finally show ?thesis by (simp add: all)
qed

lemma matches_some_association:
  "list_ex (matchesEnrollment st) (getEventCourseSections s eventId) \<longleftrightarrow>
     (\<exists>r\<in>set (eventCourseSections s).
        ecs_eventId r = eventId \<and> ecs_courseId r = stu_courseId st
        \<and> ecs_sectionId r = stu_sectionId st)"
proof -
  have "list_ex (matchesEnrollment st) (getEventCourseSections s eventId) \<longleftrightarrow>
          (\<exists>r\<in>ecj_row ` set (getEventCourseSections s eventId).
             ecs_courseId r = stu_courseId st \<and> ecs_sectionId r = stu_sectionId st)"
    by (simp add: list_ex_iff matchesEnrollment_def)
  then show ?thesis by (auto simp: getEventCourseSections_rows)
qed

lemma getEventCourseSections_frame:
  "eventCourseSections s' = eventCourseSections s \<Longrightarrow> courses s' = courses s \<Longrightarrow>
   sections s' = sections s \<Longrightarrow> getEventCourseSections s' eventId = getEventCourseSections s eventId"
  by (simp add: getEventCourseSections_def)

text \<open>
  C2. For a caller whose role is \<open>student\<close> and whose student row resolves, the
  listing answers 200, and an event is in it if and only if it is a row of the event
  table and some association row of that event has both the student's \<open>courseId\<close>
  and the student's \<open>sectionId\<close>. The \<open>isActive\<close> flag plays no part: setting the
  flags of the events to any values gives the same listing, event for event and with
  the same attendance, only the flags in it changed.
\<close>

theorem student_events_by_enrollment:
  assumes "usr_role user = ''student''"
      and "usr_studentId user = Some ownId"
      and "getStudentByStudentId s ownId = Some st"
  shows "\<exists>listing.
           get_student_events user s = (200, StudentEventsBody listing)
           \<and> (\<forall>e. e \<in> set (map (\<lambda>x. ews_event (fst x)) listing) \<longleftrightarrow>
                  e \<in> set (events s)
                  \<and> (\<exists>r\<in>set (eventCourseSections s).
                        ecs_eventId r = evt_id e
                        \<and> ecs_courseId r = stu_courseId (swe_student st)
                        \<and> ecs_sectionId r = stu_sectionId (swe_student st)))
           \<and> get_student_events user
               (s\<lparr>events := map (\<lambda>e. e\<lparr>evt_isActive := flag e\<rparr>) (events s)\<rparr>) =
             (200, StudentEventsBody
                     (map (\<lambda>x. (fst x\<lparr>ews_event :=
                                    (ews_event (fst x))\<lparr>evt_isActive := flag (ews_event (fst x))\<rparr>\<rparr>,
                                 snd x)) listing))"
proof -
  let ?st = "swe_student st"
  let ?visible = "\<lambda>event. list_ex (matchesEnrollment ?st) (ews_eventCourseSections event)"
  let ?annotate = "\<lambda>event. (event, getAttendance s (evt_id (ews_event event)) (stu_id ?st))"
  let ?listing = "map ?annotate (filter ?visible (getAllEvents s))"
  let ?s' = "s\<lparr>events := map (\<lambda>e. e\<lparr>evt_isActive := flag e\<rparr>) (events s)\<rparr>"
  let ?f = "\<lambda>ev. ev\<lparr>ews_event := (ews_event ev)\<lparr>evt_isActive := flag (ews_event ev)\<rparr>\<rparr>"
  have run: "get_student_events user s = (200, StudentEventsBody ?listing)"
    using assms by (simp add: get_student_events_def Let_def)
  have member: "e \<in> set (map (\<lambda>x. ews_event (fst x)) ?listing) \<longleftrightarrow>
                  e \<in> set (events s)
                  \<and> (\<exists>r\<in>set (eventCourseSections s).
                        ecs_eventId r = evt_id e
                        \<and> ecs_courseId r = stu_courseId ?st
                        \<and> ecs_sectionId r = stu_sectionId ?st)" for e
  proof -
    have "e \<in> set (map (\<lambda>x. ews_event (fst x)) ?listing) \<longleftrightarrow>
            e \<in> set (events s)
            \<and> list_ex (matchesEnrollment ?st) (getEventCourseSections s (evt_id e))"
      by (auto simp: getAllEvents_def image_iff)
    then show ?thesis by (simp add: matches_some_association)
  qed
  have ecs': "getEventCourseSections ?s' eventId = getEventCourseSections s eventId" for eventId
    by (rule getEventCourseSections_frame) simp_all
  have all': "getAllEvents ?s' = map ?f (getAllEvents s)"
    by (simp add: getAllEvents_def ecs' o_def)
  have st': "getStudentByStudentId ?s' ownId = Some st"
    using assms(3) getStudentByStudentId_frame [of ?s' s ownId] by simp
  have att': "getAttendance ?s' = getAttendance s"
    by (intro ext) (simp add: getAttendance_def)
  have "get_student_events user ?s' =
          (200, StudentEventsBody
                  (map (\<lambda>event. (event, getAttendance s (evt_id (ews_event event)) (stu_id ?st)))
                     (filter ?visible (map ?f (getAllEvents s)))))"
    using assms(1,2) st' by (simp add: get_student_events_def Let_def all' att')
  also have "filter ?visible (map ?f (getAllEvents s)) = map ?f (filter ?visible (getAllEvents s))"
    by (simp add: filter_map o_def)
  finally have run': "get_student_events user ?s' =
          (200, StudentEventsBody (map (\<lambda>x. (?f (fst x), snd x)) ?listing))"
    by (simp add: o_def)
  from run member run' show ?thesis by blast
qed

text \<open>
  The event \<open>e1\<close>, inactive and open to section A: Ann, of section A, is shown it;
  an account for Bob, of section B in the same course, is not.
\<close>

theorem student_events_by_enrollment_witness:
  "\<not> evt_isActive event1
   \<and> (\<exists>listing. get_student_events ann_user demo_db = (200, StudentEventsBody listing)
         \<and> event1 \<in> set (map (\<lambda>x. ews_event (fst x)) listing))
   \<and> (\<exists>listing. get_student_events
                   \<lparr>usr_id = ''u3'', usr_email = ''bob@school.edu'', usr_password = ''s3:bobpass'',
                    usr_role = ''student'', usr_studentId = Some ''2024-002''\<rparr> demo_db =
                 (200, StudentEventsBody listing)
         \<and> event1 \<notin> set (map (\<lambda>x. ews_event (fst x)) listing))"
proof -
  let ?bob_user = "\<lparr>usr_id = ''u3'', usr_email = ''bob@school.edu'', usr_password = ''s3:bobpass'',
                    usr_role = ''student'', usr_studentId = Some ''2024-002''\<rparr>"
  have ann: "getStudentByStudentId demo_db ''2024-001'' =
               Some \<lparr>swe_student = ann, swe_course = Some course1, swe_section = Some sectionA\<rparr>"
    by (simp add: getStudentByStudentId_def studentsJoined_def leftJoin_def demo_db_def ann_def
                  bob_def course1_def sectionA_def sectionB_def withEnrollment_def)
  have bob: "getStudentByStudentId demo_db ''2024-002'' =
               Some \<lparr>swe_student = bob, swe_course = Some course1, swe_section = Some sectionB\<rparr>"
    by (simp add: getStudentByStudentId_def studentsJoined_def leftJoin_def demo_db_def ann_def
                  bob_def course1_def sectionA_def sectionB_def withEnrollment_def)
  have tables: "events demo_db = [event1]"
    "eventCourseSections demo_db =
       [\<lparr>ecs_id = ''k1'', ecs_eventId = ''e1'', ecs_courseId = ''c1'', ecs_sectionId = ''secA''\<rparr>]"
    by (simp_all add: demo_db_def)
  have inactive: "\<not> evt_isActive event1"
    by (simp add: event1_def)
  have a: "usr_role ann_user = ''student''" "usr_studentId ann_user = Some ''2024-001''"
    by (simp_all add: ann_user_def)
  have b: "usr_role ?bob_user = ''student''" "usr_studentId ?bob_user = Some ''2024-002''"
    by simp_all
  obtain l1 where l1: "get_student_events ann_user demo_db = (200, StudentEventsBody l1)"
    and m1: "\<And>e. e \<in> set (map (\<lambda>x. ews_event (fst x)) l1) \<longleftrightarrow>
                  e \<in> set (events demo_db)
                  \<and> (\<exists>r\<in>set (eventCourseSections demo_db).
                        ecs_eventId r = evt_id e \<and> ecs_courseId r = stu_courseId ann
                        \<and> ecs_sectionId r = stu_sectionId ann)"
    using student_events_by_enrollment [where flag = "\<lambda>e. True", OF a ann] by auto
  obtain l2 where l2: "get_student_events ?bob_user demo_db = (200, StudentEventsBody l2)"
    and m2: "\<And>e. e \<in> set (map (\<lambda>x. ews_event (fst x)) l2) \<longleftrightarrow>
                  e \<in> set (events demo_db)
                  \<and> (\<exists>r\<in>set (eventCourseSections demo_db).
                        ecs_eventId r = evt_id e \<and> ecs_courseId r = stu_courseId bob
                        \<and> ecs_sectionId r = stu_sectionId bob)"
    using student_events_by_enrollment [where flag = "\<lambda>e. True", OF b bob] by auto
  have "event1 \<in> set (map (\<lambda>x. ews_event (fst x)) l1)"
    unfolding m1 by (simp add: tables) (simp add: event1_def ann_def)
  moreover have "event1 \<notin> set (map (\<lambda>x. ews_event (fst x)) l2)"
    unfolding m2 by (simp add: tables) (simp add: event1_def bob_def)
  ultimately show ?thesis using inactive l1 l2 by blast
qed

section \<open>QR regeneration\<close>

lemma regenerate_only_events:
  "\<exists>evs. snd (post_events_regenerate_qr ext now user rid s) = s\<lparr>events := evs\<rparr>"
proof (cases "usr_role user \<noteq> ''admin''")
  case True
  then have "snd (post_events_regenerate_qr ext now user rid s) = s\<lparr>events := events s\<rparr>"
    by (simp add: post_events_regenerate_qr_def)
  then show ?thesis by blast
next
  case False
  then show ?thesis
    by (auto simp: post_events_regenerate_qr_def updateEvent_def emptyPatchEvent_def Let_def)
qed

lemma regenerate_rows:
  "map (\<lambda>e. if evt_id e = rid
            then setEvent \<lparr>pe_name = None, pe_description = None, pe_eventDate = None,
                           pe_eventTime = None, pe_isActive = None, pe_qrCode = Some (Some qr),
                           pe_qrCodeData = Some payload\<rparr> e
            else e) evs =
   map (\<lambda>e. if evt_id e = rid then e\<lparr>evt_qrCode := Some qr, evt_qrCodeData := payload\<rparr> else e)
     evs"
  by (rule map_cong) (simp_all add: setEvent_def)

lemma regenerate_by_admin:
  assumes "usr_role user = ''admin''"
  shows "post_events_regenerate_qr ext now user rid s =
      ((200, EventBody
               (first (filter (\<lambda>e. evt_id e = rid)
                  (map (\<lambda>e. if evt_id e = rid
                            then e\<lparr>evt_qrCode :=
                                     Some (QRCode_toDataURL ext (JSON_stringify ext rid now)),
                                   evt_qrCodeData := JSON_stringify ext rid now\<rparr>
                            else e) (events s))))),
       s\<lparr>events :=
           map (\<lambda>e. if evt_id e = rid
                     then e\<lparr>evt_qrCode :=
                              Some (QRCode_toDataURL ext (JSON_stringify ext rid now)),
                            evt_qrCodeData := JSON_stringify ext rid now\<rparr>
                     else e) (events s)\<rparr>)"
  using assms
  by (simp add: post_events_regenerate_qr_def updateEvent_def emptyPatchEvent_def Let_def
                regenerate_rows)

text \<open>
  C3, as amended. Regenerating the QR payload of an event, by an administrator, writes
  the event table only, and there only the rows with the event's identifier, whose
  \<open>qrCodeData\<close> becomes the new payload and whose \<open>qrCode\<close> its image; every other
  column and row, and every other table, is as before. By anyone else it is refused
  with 403 and writes nothing. The attendance rows are the same after it. A check-in
  after the regeneration, with any payload, the old one included, gets the response it
  gets without the regeneration and leaves the same attendance rows: the handler takes
  the event identifier from the payload it is sent and never compares that payload with
  the one stored in the event row.
\<close>

theorem regeneration_does_not_affect_checkin:
  "(usr_role user = ''admin'' \<longrightarrow>
      post_events_regenerate_qr ext now user rid s =
        ((200, EventBody
                 (first (filter (\<lambda>e. evt_id e = rid)
                    (map (\<lambda>e. if evt_id e = rid
                              then e\<lparr>evt_qrCode :=
                                       Some (QRCode_toDataURL ext (JSON_stringify ext rid now)),
                                     evt_qrCodeData := JSON_stringify ext rid now\<rparr>
                              else e) (events s))))),
         s\<lparr>events :=
             map (\<lambda>e. if evt_id e = rid
                       then e\<lparr>evt_qrCode :=
                                Some (QRCode_toDataURL ext (JSON_stringify ext rid now)),
                              evt_qrCodeData := JSON_stringify ext rid now\<rparr>
                       else e) (events s)\<rparr>))
   \<and> (usr_role user \<noteq> ''admin'' \<longrightarrow>
      post_events_regenerate_qr ext now user rid s =
        ((403, Message ''Admin access required''), s))
   \<and> attendance (snd (post_events_regenerate_qr ext now user rid s)) = attendance s
   \<and> fst (checkin ext now' newId caller b (snd (post_events_regenerate_qr ext now user rid s))) =
       fst (checkin ext now' newId caller b s)
   \<and> attendance
       (snd (checkin ext now' newId caller b (snd (post_events_regenerate_qr ext now user rid s)))) =
       attendance (snd (checkin ext now' newId caller b s))"
proof -
  obtain evs where evs: "snd (post_events_regenerate_qr ext now user rid s) = s\<lparr>events := evs\<rparr>"
    using regenerate_only_events by blast
  have 1: "attendance (snd (post_events_regenerate_qr ext now user rid s)) = attendance s"
    by (simp add: evs)
  have 2: "fst (checkin ext now' newId caller b (s\<lparr>events := evs\<rparr>)) =
             fst (checkin ext now' newId caller b s)"
    by (simp add: checkin_events split: prod.splits)
  have 3: "attendance (snd (checkin ext now' newId caller b (s\<lparr>events := evs\<rparr>))) =
             attendance (snd (checkin ext now' newId caller b s))"
    by (simp add: checkin_events split: prod.splits)
  have 4: "usr_role user \<noteq> ''admin'' \<longrightarrow>
      post_events_regenerate_qr ext now user rid s =
        ((403, Message ''Admin access required''), s)"
    by (simp add: post_events_regenerate_qr_def)
  from 1 2 3 4 regenerate_by_admin [of user ext now rid s] show ?thesis
    by (simp add: evs)
qed

text \<open>
  The administrator regenerates the payload of \<open>e1\<close>; Ann's check-in with the payload
  \<open>e1\<close> had before.
\<close>

theorem regeneration_does_not_affect_checkin_witness:
  "events (snd (post_events_regenerate_qr sample_env 2 admin_user ''e1'' demo_db)) =
     [event1\<lparr>evt_qrCode := Some ''data:image/png;base64,{\"eventId\":\"e1\",\"timestamp\":2}'',
             evt_qrCodeData := ''{\"eventId\":\"e1\",\"timestamp\":2}''\<rparr>]
   \<and> attendance (snd (post_events_regenerate_qr sample_env 2 admin_user ''e1'' demo_db)) =
     attendance demo_db
   \<and> fst (checkin sample_env 3 ''a1'' ann_user
            \<lparr>cr_qrCodeData = Some (evt_qrCodeData event1), cr_studentId = None, cr_eventId = None\<rparr>
            (snd (post_events_regenerate_qr sample_env 2 admin_user ''e1'' demo_db))) =
       fst (checkin sample_env 3 ''a1'' ann_user
            \<lparr>cr_qrCodeData = Some (evt_qrCodeData event1), cr_studentId = None, cr_eventId = None\<rparr>
            demo_db)"
proof -
  note regen = regeneration_does_not_affect_checkin
          [where ext = sample_env and now = 2 and user = admin_user and rid = "''e1''"
             and s = demo_db and now' = 3 and newId = "''a1''" and caller = ann_user
             and b = "\<lparr>cr_qrCodeData = Some (evt_qrCodeData event1), cr_studentId = None,
                       cr_eventId = None\<rparr>"]
  have admin: "usr_role admin_user = ''admin''"
    by (simp add: admin_user_def)
  have "events (snd (post_events_regenerate_qr sample_env 2 admin_user ''e1'' demo_db)) =
     [event1\<lparr>evt_qrCode := Some ''data:image/png;base64,{\"eventId\":\"e1\",\"timestamp\":2}'',
             evt_qrCodeData := ''{\"eventId\":\"e1\",\"timestamp\":2}''\<rparr>]"
    using regen [THEN conjunct1, rule_format, OF admin]
    by (simp add: demo_db_def sample_env_def) (simp add: event1_def)
  with regen show ?thesis by simp
qed

text \<open>
  C3, as stated, fails: the administrator regenerates the payload of \<open>e1\<close>, the
  stored payload changes, and Ann's check-in with the old payload is accepted.
\<close>

theorem old_payload_counterexample:
  "evt_qrCodeData event1 = ''{\"eventId\":\"e1\",\"timestamp\":1}''
   \<and> map evt_qrCodeData (events (snd (post_events_regenerate_qr sample_env 2 admin_user ''e1'' demo_db)))
       = [''{\"eventId\":\"e1\",\"timestamp\":2}'']
   \<and> fst (checkin sample_env 3 ''a1'' ann_user
            \<lparr>cr_qrCodeData = Some ''{\"eventId\":\"e1\",\"timestamp\":1}'', cr_studentId = None,
             cr_eventId = None\<rparr>
            (snd (post_events_regenerate_qr sample_env 2 admin_user ''e1'' demo_db))) =
       (200, CheckinBody ''in''
               (Some \<lparr>att_id = ''a1'', att_eventId = ''e1'', att_studentId = ''st1'',
                      att_timeIn = Some 3, att_timeOut = None\<rparr>))"
proof -
  have regen: "snd (post_events_regenerate_qr sample_env 2 admin_user ''e1'' demo_db) =
                 demo_db\<lparr>events :=
                   [event1\<lparr>evt_qrCode := Some ''data:image/png;base64,{\"eventId\":\"e1\",\"timestamp\":2}'',
                           evt_qrCodeData := ''{\"eventId\":\"e1\",\"timestamp\":2}''\<rparr>]\<rparr>"
    by (simp add: post_events_regenerate_qr_def admin_user_def sample_env_def updateEvent_def
                  emptyPatchEvent_def setEvent_def Let_def demo_db_def event1_def)
  have ann: "getStudentByStudentId demo_db ''2024-001'' =
               Some \<lparr>swe_student = ann, swe_course = Some course1, swe_section = Some sectionA\<rparr>"
    by (simp add: getStudentByStudentId_def studentsJoined_def leftJoin_def demo_db_def ann_def
                  bob_def course1_def sectionA_def sectionB_def withEnrollment_def)
  have target: "checkin_target sample_env ann_user
            \<lparr>cr_qrCodeData = Some ''{\"eventId\":\"e1\",\"timestamp\":1}'', cr_studentId = None,
             cr_eventId = None\<rparr> demo_db = Inr (''e1'', ''st1'')"
    using ann by (simp add: checkin_target_def sample_env_def ann_user_def ann_def)
  have absent: "getAttendance demo_db ''e1'' ''st1'' = None"
    "''a1'' \<notin> set (map att_id (attendance demo_db))"
    by (simp_all add: getAttendance_def demo_db_def)
  have run: "checkin sample_env 3 ''a1'' ann_user
            \<lparr>cr_qrCodeData = Some ''{\"eventId\":\"e1\",\"timestamp\":1}'', cr_studentId = None,
             cr_eventId = None\<rparr> demo_db =
       ((200, CheckinBody ''in''
               (Some \<lparr>att_id = ''a1'', att_eventId = ''e1'', att_studentId = ''st1'',
                      att_timeIn = Some 3, att_timeOut = None\<rparr>)),
        demo_db\<lparr>attendance := attendance demo_db @
           [\<lparr>att_id = ''a1'', att_eventId = ''e1'', att_studentId = ''st1'',
                      att_timeIn = Some 3, att_timeOut = None\<rparr>]\<rparr>)"
    using target record_attendance_absent [OF absent, of 3]
    by (simp add: checkin_def)
  show ?thesis
    by (simp add: regen checkin_events run) (simp add: event1_def)
qed



section \<open>Authorization of the administration routes\<close>




section \<open>Two check-ins for one new pair\<close>

lemma attendanceOf_absent:
  "getAttendance s e st = None \<Longrightarrow> attendanceOf s e st = []"
  by (cases "attendanceOf s e st") (simp_all add: getAttendance_def attendanceOf_def)

lemma map_untouched:
  "k \<notin> set (map f xs) \<Longrightarrow> map (\<lambda>a. if f a = k then g a else a) xs = xs"
  by (induction xs) auto

lemma first_None: "first xs = None \<longleftrightarrow> xs = []"
  by (cases xs) simp_all

lemma sequential_first_checkins:
  assumes "getAttendance s eventId studentId = None"
      and "newId1 \<notin> set (map att_id (attendance s))"
  shows "(case record_attendance now1 newId1 eventId studentId s of
            (r1, s1) \<Rightarrow> record_attendance now2 newId2 eventId studentId s1) =
           ((200, CheckinBody ''out''
                    (Some \<lparr>att_id = newId1, att_eventId = eventId, att_studentId = studentId,
                           att_timeIn = Some now1, att_timeOut = Some now2\<rparr>)),
            s\<lparr>attendance := attendance s @
                 [\<lparr>att_id = newId1, att_eventId = eventId, att_studentId = studentId,
                   att_timeIn = Some now1, att_timeOut = Some now2\<rparr>]\<rparr>)"
proof -
  let ?r1 = "\<lparr>att_id = newId1, att_eventId = eventId, att_studentId = studentId,
               att_timeIn = Some now1, att_timeOut = None\<rparr>"
  let ?r1' = "\<lparr>att_id = newId1, att_eventId = eventId, att_studentId = studentId,
               att_timeIn = Some now1, att_timeOut = Some now2\<rparr>"
  let ?s1 = "s\<lparr>attendance := attendance s @ [?r1]\<rparr>"
  let ?p = "\<lparr>pa_eventId = None, pa_studentId = None, pa_timeIn = None,
             pa_timeOut = Some (Some now2)\<rparr>"
  have one: "record_attendance now1 newId1 eventId studentId s =
               ((200, CheckinBody ''in'' (Some ?r1)), ?s1)"
    using assms by (rule record_attendance_absent)
  have found: "getAttendance ?s1 eventId studentId = Some ?r1"
    using assms(1) by (simp add: getAttendance_def first_None)
  have old: "map (\<lambda>a. if att_id a = newId1 then setAttendance ?p a else a) (attendance s) =
               attendance s"
    using assms(2) by (rule map_untouched)
  have none: "filter (\<lambda>a. att_id a = newId1) (attendance s) = []"
    using assms(2) by (auto simp: filter_empty_conv)
  have upd: "updateAttendance ?s1 newId1 ?p =
               Inr (Some ?r1', s\<lparr>attendance := attendance s @ [?r1']\<rparr>)"
    by (simp add: updateAttendance_def Let_def old none setAttendance_def)
  have "record_attendance now2 newId2 eventId studentId ?s1 =
          ((200, CheckinBody ''out'' (Some ?r1')), s\<lparr>attendance := attendance s @ [?r1']\<rparr>)"
    using upd by (simp add: record_attendance_def found checkin_write_def)
  with one show ?thesis by simp
qed

text \<open>
  C8, as amended. The attendance table has a primary key and no uniqueness constraint
  on the pair (event, student), and the handler does not retry. Take a pair with no
  attendance row and two distinct unused identifiers. When both check-ins look up
  before either writes, each inserts its own row and both are answered \<open>in\<close>: the pair
  has two attendance rows. When the second check-in starts after the first has
  finished, the pair has exactly one row, which the second has closed.
\<close>

theorem overlapping_first_checkins:
  assumes "getAttendance s eventId studentId = None"
      and "newId1 \<notin> set (map att_id (attendance s))"
      and "newId2 \<notin> set (map att_id (attendance s))"
      and "newId1 \<noteq> newId2"
  shows "checkin_lookup_lookup_write_write now1 newId1 now2 newId2 eventId studentId s =
           ((200, CheckinBody ''in''
                    (Some \<lparr>att_id = newId1, att_eventId = eventId, att_studentId = studentId,
                           att_timeIn = Some now1, att_timeOut = None\<rparr>)),
            (200, CheckinBody ''in''
                    (Some \<lparr>att_id = newId2, att_eventId = eventId, att_studentId = studentId,
                           att_timeIn = Some now2, att_timeOut = None\<rparr>)),
            s\<lparr>attendance := attendance s @
                 [\<lparr>att_id = newId1, att_eventId = eventId, att_studentId = studentId,
                   att_timeIn = Some now1, att_timeOut = None\<rparr>,
                  \<lparr>att_id = newId2, att_eventId = eventId, att_studentId = studentId,
                   att_timeIn = Some now2, att_timeOut = None\<rparr>]\<rparr>)
         \<and> attendanceOf
             (snd (snd (checkin_lookup_lookup_write_write now1 newId1 now2 newId2
                          eventId studentId s)))
             eventId studentId =
           [\<lparr>att_id = newId1, att_eventId = eventId, att_studentId = studentId,
             att_timeIn = Some now1, att_timeOut = None\<rparr>,
            \<lparr>att_id = newId2, att_eventId = eventId, att_studentId = studentId,
             att_timeIn = Some now2, att_timeOut = None\<rparr>]
         \<and> attendanceOf
             (snd (case record_attendance now1 newId1 eventId studentId s of
                     (r1, s1) \<Rightarrow> record_attendance now2 newId2 eventId studentId s1))
             eventId studentId =
           [\<lparr>att_id = newId1, att_eventId = eventId, att_studentId = studentId,
             att_timeIn = Some now1, att_timeOut = Some now2\<rparr>]"
proof -
  let ?r1 = "\<lparr>att_id = newId1, att_eventId = eventId, att_studentId = studentId,
               att_timeIn = Some now1, att_timeOut = None\<rparr>"
  let ?r2 = "\<lparr>att_id = newId2, att_eventId = eventId, att_studentId = studentId,
               att_timeIn = Some now2, att_timeOut = None\<rparr>"
  let ?s1 = "s\<lparr>attendance := attendance s @ [?r1]\<rparr>"
  have w1: "checkin_write now1 newId1 eventId studentId None s =
              ((200, CheckinBody ''in'' (Some ?r1)), ?s1)"
    using assms(2) by (rule checkin_write_absent)
  have "newId2 \<notin> set (map att_id (attendance ?s1))"
    using assms(3,4) by simp
  then have w2: "checkin_write now2 newId2 eventId studentId None ?s1 =
              ((200, CheckinBody ''in'' (Some ?r2)),
               ?s1\<lparr>attendance := attendance ?s1 @ [?r2]\<rparr>)"
    by (rule checkin_write_absent)
  have run: "checkin_lookup_lookup_write_write now1 newId1 now2 newId2 eventId studentId s =
           ((200, CheckinBody ''in'' (Some ?r1)), (200, CheckinBody ''in'' (Some ?r2)),
            s\<lparr>attendance := attendance s @ [?r1, ?r2]\<rparr>)"
    using assms(1) w1 w2 by (simp add: checkin_lookup_lookup_write_write_def)
  have "attendanceOf (s\<lparr>attendance := attendance s @ [?r1, ?r2]\<rparr>) eventId studentId =
          attendanceOf s eventId studentId @ [?r1, ?r2]"
    by (simp add: attendanceOf_def)
  then have "attendanceOf (s\<lparr>attendance := attendance s @ [?r1, ?r2]\<rparr>) eventId studentId =
          [?r1, ?r2]"
    using attendanceOf_absent [OF assms(1)] by simp
  moreover have "attendanceOf
             (snd (case record_attendance now1 newId1 eventId studentId s of
                     (r1, s1) \<Rightarrow> record_attendance now2 newId2 eventId studentId s1))
             eventId studentId =
           [\<lparr>att_id = newId1, att_eventId = eventId, att_studentId = studentId,
             att_timeIn = Some now1, att_timeOut = Some now2\<rparr>]"
    using attendanceOf_absent [OF assms(1)]
    by (simp add: sequential_first_checkins [OF assms(1,2)]) (simp add: attendanceOf_def)
  ultimately show ?thesis using run by simp
qed

text \<open>Two overlapping check-ins of Ann at \<open>e1\<close>.\<close>

theorem overlapping_first_checkins_witness:
  "checkin_lookup_lookup_write_write 1 ''a1'' 2 ''a2'' ''e1'' ''st1'' demo_db =
           ((200, CheckinBody ''in''
                    (Some \<lparr>att_id = ''a1'', att_eventId = ''e1'', att_studentId = ''st1'',
                           att_timeIn = Some 1, att_timeOut = None\<rparr>)),
            (200, CheckinBody ''in''
                    (Some \<lparr>att_id = ''a2'', att_eventId = ''e1'', att_studentId = ''st1'',
                           att_timeIn = Some 2, att_timeOut = None\<rparr>)),
            demo_db\<lparr>attendance :=
                 [\<lparr>att_id = ''a1'', att_eventId = ''e1'', att_studentId = ''st1'',
                   att_timeIn = Some 1, att_timeOut = None\<rparr>,
                  \<lparr>att_id = ''a2'', att_eventId = ''e1'', att_studentId = ''st1'',
                   att_timeIn = Some 2, att_timeOut = None\<rparr>]\<rparr>)"
proof -
  have h: "getAttendance demo_db ''e1'' ''st1'' = None"
    "''a1'' \<notin> set (map att_id (attendance demo_db))"
    "''a2'' \<notin> set (map att_id (attendance demo_db))"
    "''a1'' \<noteq> ''a2''"
    by (simp_all add: getAttendance_def demo_db_def)
  have "attendance demo_db = []"
    by (simp add: demo_db_def)
  then show ?thesis
    using overlapping_first_checkins [OF h, of 1 2, THEN conjunct1] by simp
qed

text \<open>C8, as stated, fails: the overlapping check-ins leave two rows for the pair, not one.\<close>

theorem two_rows_counterexample:
  "length (attendanceOf
             (snd (snd (checkin_lookup_lookup_write_write 1 ''a1'' 2 ''a2'' ''e1'' ''st1'' demo_db)))
             ''e1'' ''st1'') = 2"
  by (simp add: checkin_lookup_lookup_write_write_def getAttendance_def checkin_write_def
                createAttendance_def attendanceOf_def Let_def demo_db_def)

end
